theory Spec2Isabelle
  imports Main "HOL-Library.Word"
begin

section \<open>gRPC trace interceptors (grpc.go)\<close>

text \<open>
  A shallow embedding of \<^verbatim>\<open>grpc.go\<close> of package \<^verbatim>\<open>trace\<close>: the unary and streaming
  interceptors for client and server, and the two stream wrappers. Go pointers are
  addresses into explicit stores, \<^verbatim>\<open>nil\<close> is \<open>None\<close>, and every function that has an
  effect takes the state of the program and returns the new one. Closures handed in by
  gRPC (invoker, streamer, handler, the underlying stream) are parameters: functions on
  the same state.
\<close>

subsection \<open>Values\<close>

type_synonym addr = nat

text \<open>A Go \<^verbatim>\<open>error\<close> value; \<^verbatim>\<open>err.Error()\<close> is \<open>message\<close>, a \<^verbatim>\<open>nil\<close> error is \<open>None\<close>.\<close>

datatype error = Err (message: string)

text \<open>
  \<^verbatim>\<open>metadata.MD\<close> is \<^verbatim>\<open>map[string][]string\<close>. The slices stored in it are never written
  through by \<^verbatim>\<open>grpc.go\<close> (an entry is replaced by a new slice), so they are lists.
\<close>

type_synonym MD = "string \<rightharpoonup> string list"

text \<open>
  Modelled from the spec: the \<^verbatim>\<open>Span\<close> type is declared outside \<^verbatim>\<open>grpc.go\<close>. The
  fields are those that \<^verbatim>\<open>grpc.go\<close> reads (\<^verbatim>\<open>span.trace.traceID\<close>,
  \<^verbatim>\<open>span.trace.globalOptions\<close>, \<^verbatim>\<open>span.span.ParentSpanId\<close>) and those the spec gives a
  span: its own span id, a name, a label mapping, and whether the single logical finish
  action has happened. Span ids are 64-bit integers, the trace id is an identifier in
  string form, the options are a bitmask.
\<close>

record Span =
  spanName :: string
  traceID :: string
  globalOptions :: nat
  SpanId :: "64 word"
  ParentSpanId :: "64 word"
  labels :: "string \<rightharpoonup> string"
  finished :: bool

text \<open>
  The state of the program: the store of \<^verbatim>\<open>Span\<close> objects with its allocation limit, the
  source of new span ids, the spans handed to the reporting backend (in order), the
  store of metadata maps with its allocation limit, and the lines written by
  \<^verbatim>\<open>log.Printf\<close>.
\<close>

record world =
  spans :: "addr \<Rightarrow> Span"
  nextSpan :: addr
  spanIDs :: "addr \<Rightarrow> 64 word"
  reported :: "addr list"
  mds :: "addr \<Rightarrow> MD"
  nextMD :: addr
  logs :: "string list"

text \<open>
  A \<^verbatim>\<open>context.Context\<close>, as far as \<^verbatim>\<open>grpc.go\<close> looks into it: the span bound to it and
  the outgoing and incoming metadata maps (references, as in Go).
\<close>

record Context =
  ctxSpan :: "addr option"
  outgoingMD :: "addr option"
  incomingMD :: "addr option"

definition grpcMetadataKey :: string where
  "grpcMetadataKey = ''x-cloud-trace-context''"

subsection \<open>Header codec\<close>

text \<open>
  Modelled from the spec: the header codec is not part of \<^verbatim>\<open>grpc.go\<close>. The spec gives
  the wire format \<^verbatim>\<open><trace-id>/<span-id>;o=<options>\<close> with the span id and the options
  in decimal. \<open>formatUint\<close> and \<open>parseUint\<close> are decimal printing and reading.
\<close>

definition digitChar :: "nat \<Rightarrow> char" where
  "digitChar d = ''0123456789'' ! d"

definition isDigit :: "char \<Rightarrow> bool" where
  "isDigit c = (48 \<le> (of_char c :: nat) \<and> (of_char c :: nat) \<le> 57)"

definition digitVal :: "char \<Rightarrow> nat" where
  "digitVal c = of_char c - 48"

function formatUint :: "nat \<Rightarrow> string" where
  "formatUint n =
     (if n < 10 then [digitChar n] else formatUint (n div 10) @ [digitChar (n mod 10)])"
  by pat_completeness auto
termination
  by (relation "measure id") auto

declare formatUint.simps [simp del]

definition parseUint :: "string \<Rightarrow> nat option" where
  "parseUint s =
     (if s = [] \<or> \<not> list_all isDigit s then None
      else Some (foldl (\<lambda>a c. 10 * a + digitVal c) 0 s))"

text \<open>
  Modelled from the spec: \<^verbatim>\<open>spanHeader\<close> (the spec's encode) is called by \<^verbatim>\<open>grpc.go\<close> and
  defined elsewhere. It produces \<^verbatim>\<open>"<traceID>/<spanID>;o=<options>"\<close>.
\<close>

definition spanHeader :: "string \<Rightarrow> 64 word \<Rightarrow> nat \<Rightarrow> string" where
  "spanHeader tid spanID options =
     tid @ ''/'' @ formatUint (unat spanID) @ '';o='' @ formatUint options"

text \<open>
  Modelled from the spec: decode, the parser behind \<^verbatim>\<open>SpanFromHeader\<close>, is defined
  outside \<^verbatim>\<open>grpc.go\<close>. It is a best-effort parse of the wire format that never fails:
  the trace id is the text before the first \<^verbatim>\<open>/\<close>, the span id the decimal number up to
  the first \<^verbatim>\<open>;\<close>, the options the decimal number after \<^verbatim>\<open>o=\<close>; a field that is
  missing or malformed (a span id that does not fit 64 bits included) becomes zero.
\<close>

definition decode :: "string \<Rightarrow> string \<times> 64 word \<times> nat" where
  "decode h =
    (let tid = takeWhile (\<lambda>c. c \<noteq> CHR ''/'') h;
         rest = drop 1 (dropWhile (\<lambda>c. c \<noteq> CHR ''/'') h);
         spanstr = takeWhile (\<lambda>c. c \<noteq> CHR '';'') rest;
         optstr = drop 1 (dropWhile (\<lambda>c. c \<noteq> CHR '';'') rest);
         spanID = (case parseUint spanstr of
                     Some n \<Rightarrow> if n < 2 ^ 64 then word_of_nat n else 0
                   | None \<Rightarrow> 0);
         options = (if take 2 optstr = ''o=''
                    then (case parseUint (drop 2 optstr) of Some n \<Rightarrow> n | None \<Rightarrow> 0)
                    else 0)
     in (tid, spanID, options))"

subsection \<open>Span operations\<close>

text \<open>
  Modelled from the spec: the methods of \<^verbatim>\<open>*Span\<close> and the context accessors are defined
  outside \<^verbatim>\<open>grpc.go\<close>. From the spec: an absent span behaves as a safe no-op (the code
  relies on nil-receiver safety); a child span has a new span id, the same trace id,
  the ambient span's id as parent-span-id and the inherited global options; finish is
  idempotent, a second call neither changes the span nor reports it again; a span owns
  a label mapping that \<^verbatim>\<open>SetLabel\<close> writes.
\<close>

definition FromContext :: "Context \<Rightarrow> addr option" where
  "FromContext ctx = ctxSpan ctx"

definition NewContext :: "Context \<Rightarrow> addr option \<Rightarrow> Context" where
  "NewContext ctx span = ctx\<lparr>ctxSpan := span\<rparr>"

definition allocSpan :: "Span \<Rightarrow> world \<Rightarrow> addr \<times> world" where
  "allocSpan s w =
     (nextSpan w, w\<lparr>spans := (spans w)(nextSpan w := s), nextSpan := Suc (nextSpan w)\<rparr>)"

definition NewChild :: "addr option \<Rightarrow> string \<Rightarrow> world \<Rightarrow> addr option \<times> world" where
  "NewChild sp name w =
     (case sp of
        None \<Rightarrow> (None, w)
      | Some a \<Rightarrow>
          (let parent = spans w a;
               (c, w') = allocSpan \<lparr>spanName = name, traceID = traceID parent,
                                    globalOptions = globalOptions parent,
                                    SpanId = spanIDs w (nextSpan w),
                                    ParentSpanId = SpanId parent,
                                    labels = Map.empty, finished = False\<rparr> w
           in (Some c, w')))"

definition Finish :: "addr option \<Rightarrow> world \<Rightarrow> world" where
  "Finish sp w =
     (case sp of
        None \<Rightarrow> w
      | Some a \<Rightarrow>
          if finished (spans w a) then w
          else w\<lparr>spans := (spans w)(a := (spans w a)\<lparr>finished := True\<rparr>),
                 reported := reported w @ [a]\<rparr>)"

definition SetLabel :: "addr option \<Rightarrow> string \<Rightarrow> string \<Rightarrow> world \<Rightarrow> world" where
  "SetLabel sp k v w =
     (case sp of
        None \<Rightarrow> w
      | Some a \<Rightarrow>
          w\<lparr>spans := (spans w)(a := (spans w a)\<lparr>labels := (labels (spans w a))(k \<mapsto> v)\<rparr>)\<rparr>)"

definition TraceID :: "addr option \<Rightarrow> world \<Rightarrow> string" where
  "TraceID sp w = (case sp of None \<Rightarrow> [] | Some a \<Rightarrow> traceID (spans w a))"

text \<open>
  Modelled from the spec: \<^verbatim>\<open>Client.SpanFromHeader\<close> is defined outside \<^verbatim>\<open>grpc.go\<close>. The
  owning trace session reconstructs a span from the decoded header; the span id of the
  header becomes the parent-span-id of the new span (the spec's example: header
  \<^verbatim>\<open>abc/42;o=1\<close> gives a span whose parent-span-id is 42). The session \<open>tc\<close> is kept as
  an argument of any type.
\<close>

definition SpanFromHeader :: "'tc \<Rightarrow> string \<Rightarrow> string \<Rightarrow> world \<Rightarrow> addr option \<times> world" where
  "SpanFromHeader tc name header w =
     (let (tid, parentID, options) = decode header;
          (c, w') = allocSpan \<lparr>spanName = name, traceID = tid, globalOptions = options,
                               SpanId = spanIDs w (nextSpan w), ParentSpanId = parentID,
                               labels = Map.empty, finished = False\<rparr> w
      in (Some c, w'))"

subsection \<open>Library calls: metadata and log\<close>

text \<open>
  The calls \<^verbatim>\<open>grpc.go\<close> makes into \<^verbatim>\<open>google.golang.org/grpc/metadata\<close> and \<^verbatim>\<open>log\<close>.
  \<^verbatim>\<open>FromOutgoingContext\<close> and \<^verbatim>\<open>FromIncomingContext\<close> return the map stored in the
  context (\<open>None\<close> when \<^verbatim>\<open>ok\<close> is false); \<^verbatim>\<open>Pairs\<close> and \<^verbatim>\<open>Copy\<close> allocate a new map;
  an assignment \<^verbatim>\<open>md[k] = v\<close> writes the map that \<^verbatim>\<open>md\<close> refers to; reading a \<^verbatim>\<open>nil\<close>
  map finds no key.
\<close>

definition FromOutgoingContext :: "Context \<Rightarrow> addr option" where
  "FromOutgoingContext ctx = outgoingMD ctx"

definition NewOutgoingContext :: "Context \<Rightarrow> addr \<Rightarrow> Context" where
  "NewOutgoingContext ctx md = ctx\<lparr>outgoingMD := Some md\<rparr>"

definition FromIncomingContext :: "Context \<Rightarrow> addr option" where
  "FromIncomingContext ctx = incomingMD ctx"

definition allocMD :: "MD \<Rightarrow> world \<Rightarrow> addr \<times> world" where
  "allocMD m w = (nextMD w, w\<lparr>mds := (mds w)(nextMD w := m), nextMD := Suc (nextMD w)\<rparr>)"

definition metadata_Pairs :: "string \<Rightarrow> string \<Rightarrow> world \<Rightarrow> addr \<times> world" where
  "metadata_Pairs k v w = allocMD [k \<mapsto> [v]] w"

definition MD_Copy :: "addr \<Rightarrow> world \<Rightarrow> addr \<times> world" where
  "MD_Copy md w = allocMD (mds w md) w"

definition MD_set :: "addr \<Rightarrow> string \<Rightarrow> string list \<Rightarrow> world \<Rightarrow> world" where
  "MD_set md k v w = w\<lparr>mds := (mds w)(md := (mds w md)(k \<mapsto> v))\<rparr>"

definition MD_lookup :: "addr option \<Rightarrow> string \<Rightarrow> world \<Rightarrow> string list option" where
  "MD_lookup md k w = (case md of None \<Rightarrow> None | Some a \<Rightarrow> mds w a k)"

definition logPrintf :: "string \<Rightarrow> world \<Rightarrow> world" where
  "logPrintf line w = w\<lparr>logs := logs w @ [line]\<rparr>"

subsection \<open>Unary interceptors\<close>

text \<open>
  Lines 44 to 54 of \<^verbatim>\<open>grpcUnaryInterceptor\<close>, repeated word for word as lines 138 to 148
  of \<^verbatim>\<open>grpcStreamClientInterceptor\<close>: with a span at hand, encode the header from the
  child span's trace id, parent-span-id and global options, take the outgoing metadata
  of the context (a fresh map with the one pair when there is none, otherwise a copy
  with the key overwritten), and put it into the context.
\<close>

definition injectHeader :: "addr option \<Rightarrow> Context \<Rightarrow> world \<Rightarrow> Context \<times> world" where
  "injectHeader span ctx w =
     (case span of
        None \<Rightarrow> (ctx, w)
      | Some c \<Rightarrow>
          (let header = spanHeader (traceID (spans w c)) (ParentSpanId (spans w c))
                                   (globalOptions (spans w c));
               (md, w1) = (case FromOutgoingContext ctx of
                             None \<Rightarrow> metadata_Pairs grpcMetadataKey header w
                           | Some md0 \<Rightarrow>
                               (let (md1, w') = MD_Copy md0 w
                                in (md1, MD_set md1 grpcMetadataKey [header] w')))
           in (NewOutgoingContext ctx md, w1)))"

text \<open>
  \<^verbatim>\<open>grpcUnaryInterceptor\<close>. The deferred \<^verbatim>\<open>span.Finish()\<close> runs last; \<open>req\<close>, \<open>reply\<close>,
  \<open>cc\<close> and \<open>opts\<close> are handed to the invoker as they are.
\<close>

definition grpcUnaryInterceptor ::
  "Context \<Rightarrow> string \<Rightarrow> 'rq \<Rightarrow> 'rp \<Rightarrow> 'cc \<Rightarrow>
   (Context \<Rightarrow> string \<Rightarrow> 'rq \<Rightarrow> 'rp \<Rightarrow> 'cc \<Rightarrow> 'op \<Rightarrow> world \<Rightarrow> error option \<times> world) \<Rightarrow>
   'op \<Rightarrow> world \<Rightarrow> error option \<times> world" where
  "grpcUnaryInterceptor ctx method req reply cc invoker opts w =
     (let (span, w1) = NewChild (FromContext ctx) method w;
          (ctx1, w2) = injectHeader span ctx w1;
          (err, w3) = invoker ctx1 method req reply cc opts w2;
          w4 = (case err of
                  None \<Rightarrow> w3
                | Some e \<Rightarrow> SetLabel span ''error'' (message e) w3)
      in (err, Finish span w4))"

text \<open>
  The closure returned by \<^verbatim>\<open>GRPCServerInterceptor(tc)\<close>. The handler returns the response
  and the error.
\<close>

definition GRPCServerInterceptor ::
  "'tc \<Rightarrow> Context \<Rightarrow> 'rq \<Rightarrow> 'info \<Rightarrow>
   (Context \<Rightarrow> 'rq \<Rightarrow> world \<Rightarrow> ('rs \<times> error option) \<times> world) \<Rightarrow>
   world \<Rightarrow> ('rs \<times> error option) \<times> world" where
  "GRPCServerInterceptor tc ctx req info handler w =
     (let md = FromIncomingContext ctx
      in case MD_lookup md grpcMetadataKey w of
           Some header \<Rightarrow>
             (let (span, w1) = SpanFromHeader tc [] (concat header) w;
                  ctx1 = NewContext ctx span;
                  (res, w2) = handler ctx1 req w1
              in (res, Finish span w2))
         | None \<Rightarrow> handler ctx req w)"

subsection \<open>Client stream wrapper\<close>

text \<open>
  The interface \<^verbatim>\<open>grpc.ClientStream\<close>: an object is the record of its methods. A
  metadata value may be \<^verbatim>\<open>nil\<close>.
\<close>

record 'm ClientStream =
  cs_Header :: "world \<Rightarrow> (addr option \<times> error option) \<times> world"
  cs_Trailer :: "world \<Rightarrow> addr option \<times> world"
  cs_CloseSend :: "world \<Rightarrow> error option \<times> world"
  cs_Context :: Context
  cs_SendMsg :: "'m \<Rightarrow> world \<Rightarrow> error option \<times> world"
  cs_RecvMsg :: "'m \<Rightarrow> world \<Rightarrow> error option \<times> world"

record 'm ClientStreamWrapper =
  csw_stream :: "'m ClientStream"
  csw_span :: "addr option"

definition ClientStreamWrapper_Header ::
  "'m ClientStreamWrapper \<Rightarrow> world \<Rightarrow> (addr option \<times> error option) \<times> world" where
  "ClientStreamWrapper_Header s w = cs_Header (csw_stream s) w"

definition ClientStreamWrapper_Trailer ::
  "'m ClientStreamWrapper \<Rightarrow> world \<Rightarrow> addr option \<times> world" where
  "ClientStreamWrapper_Trailer s w = cs_Trailer (csw_stream s) w"

definition ClientStreamWrapper_CloseSend ::
  "'m ClientStreamWrapper \<Rightarrow> world \<Rightarrow> error option \<times> world" where
  "ClientStreamWrapper_CloseSend s w =
     (let w1 = (if csw_span s \<noteq> None then Finish (csw_span s) w else w)
      in cs_CloseSend (csw_stream s) w1)"

definition ClientStreamWrapper_Context :: "'m ClientStreamWrapper \<Rightarrow> Context" where
  "ClientStreamWrapper_Context s = cs_Context (csw_stream s)"

definition ClientStreamWrapper_SendMsg ::
  "'m ClientStreamWrapper \<Rightarrow> 'm \<Rightarrow> world \<Rightarrow> error option \<times> world" where
  "ClientStreamWrapper_SendMsg s m w =
     (let (err, w1) = cs_SendMsg (csw_stream s) m w
      in if err \<noteq> None \<and> csw_span s \<noteq> None then (err, Finish (csw_span s) w1)
         else (err, w1))"

definition ClientStreamWrapper_RecvMsg ::
  "'m ClientStreamWrapper \<Rightarrow> 'm \<Rightarrow> world \<Rightarrow> error option \<times> world" where
  "ClientStreamWrapper_RecvMsg s m w =
     (let (err, w1) = cs_RecvMsg (csw_stream s) m w
      in if err \<noteq> None \<and> csw_span s \<noteq> None then (err, Finish (csw_span s) w1)
         else (err, w1))"

text \<open>
  \<^verbatim>\<open>grpcStreamClientInterceptor\<close>. The streamer returns \<open>Inl err\<close> for a non-nil error
  (the stream it returns with it is dropped by the code) and \<open>Inr cs\<close> for a stream
  with a nil error. The result is the wrapper (\<open>None\<close> for the nil stream) and the
  error.
\<close>

definition grpcStreamClientInterceptor ::
  "Context \<Rightarrow> 'desc \<Rightarrow> 'cc \<Rightarrow> string \<Rightarrow>
   (Context \<Rightarrow> 'desc \<Rightarrow> 'cc \<Rightarrow> string \<Rightarrow> 'op \<Rightarrow> world \<Rightarrow> (error + 'm ClientStream) \<times> world) \<Rightarrow>
   'op \<Rightarrow> world \<Rightarrow> ('m ClientStreamWrapper option \<times> error option) \<times> world" where
  "grpcStreamClientInterceptor ctx desc cc method streamer opts w =
     (let (span, w1) = NewChild (FromContext ctx) method w;
          (ctx1, w2) = injectHeader span ctx w1
      in case streamer ctx1 desc cc method opts w2 of
           (Inl err, w3) \<Rightarrow> ((None, Some err), Finish span w3)
         | (Inr cs, w3) \<Rightarrow> ((Some \<lparr>csw_stream = cs, csw_span = span\<rparr>, None), w3))"

subsection \<open>Server stream wrapper\<close>

record 'm ServerStream =
  ss_SetHeader :: "addr option \<Rightarrow> world \<Rightarrow> error option \<times> world"
  ss_SendHeader :: "addr option \<Rightarrow> world \<Rightarrow> error option \<times> world"
  ss_SetTrailer :: "addr option \<Rightarrow> world \<Rightarrow> world"
  ss_Context :: Context
  ss_SendMsg :: "'m \<Rightarrow> world \<Rightarrow> error option \<times> world"
  ss_RecvMsg :: "'m \<Rightarrow> world \<Rightarrow> error option \<times> world"

record 'm ServerStreamWrapper =
  ssw_stream :: "'m ServerStream"
  ssw_span :: "addr option"
  ssw_context :: Context

definition ServerStreamWrapper_SetHeader ::
  "'m ServerStreamWrapper \<Rightarrow> addr option \<Rightarrow> world \<Rightarrow> error option \<times> world" where
  "ServerStreamWrapper_SetHeader s md w = ss_SetHeader (ssw_stream s) md w"

definition ServerStreamWrapper_SendHeader ::
  "'m ServerStreamWrapper \<Rightarrow> addr option \<Rightarrow> world \<Rightarrow> error option \<times> world" where
  "ServerStreamWrapper_SendHeader s md w = ss_SendHeader (ssw_stream s) md w"

definition ServerStreamWrapper_SetTrailer ::
  "'m ServerStreamWrapper \<Rightarrow> addr option \<Rightarrow> world \<Rightarrow> world" where
  "ServerStreamWrapper_SetTrailer s md w = ss_SetTrailer (ssw_stream s) md w"

definition ServerStreamWrapper_Context :: "'m ServerStreamWrapper \<Rightarrow> Context" where
  "ServerStreamWrapper_Context s = ssw_context s"

definition ServerStreamWrapper_SendMsg ::
  "'m ServerStreamWrapper \<Rightarrow> 'm \<Rightarrow> world \<Rightarrow> error option \<times> world" where
  "ServerStreamWrapper_SendMsg s m w =
     (let (err, w1) = ss_SendMsg (ssw_stream s) m w
      in if err \<noteq> None \<and> ssw_span s \<noteq> None
         then (err, Finish (ssw_span s)
                      (logPrintf ('' finishing trace '' @ TraceID (ssw_span s) w1) w1))
         else (err, w1))"

definition ServerStreamWrapper_RecvMsg ::
  "'m ServerStreamWrapper \<Rightarrow> 'm \<Rightarrow> world \<Rightarrow> error option \<times> world" where
  "ServerStreamWrapper_RecvMsg s m w =
     (let (err, w1) = ss_RecvMsg (ssw_stream s) m w
      in if err \<noteq> None \<and> ssw_span s \<noteq> None
         then (err, Finish (ssw_span s)
                      (logPrintf ('' finishing trace '' @ TraceID (ssw_span s) w1) w1))
         else (err, w1))"

text \<open>
  A \<^verbatim>\<open>*ServerStreamWrapper\<close> used as a \<^verbatim>\<open>grpc.ServerStream\<close>: the interface value
  dispatches to the wrapper's methods.
\<close>

definition ServerStreamWrapper_iface :: "'m ServerStreamWrapper \<Rightarrow> 'm ServerStream" where
  "ServerStreamWrapper_iface s =
     \<lparr>ss_SetHeader = ServerStreamWrapper_SetHeader s,
      ss_SendHeader = ServerStreamWrapper_SendHeader s,
      ss_SetTrailer = ServerStreamWrapper_SetTrailer s,
      ss_Context = ServerStreamWrapper_Context s,
      ss_SendMsg = ServerStreamWrapper_SendMsg s,
      ss_RecvMsg = ServerStreamWrapper_RecvMsg s\<rparr>"

text \<open>
  The closure returned by \<^verbatim>\<open>GRPCStreamServerInterceptor(tc)\<close>. The deferred function
  logs and finishes after the handler has returned.
\<close>

definition GRPCStreamServerInterceptor ::
  "'tc \<Rightarrow> 'srv \<Rightarrow> 'm ServerStream \<Rightarrow> 'info \<Rightarrow>
   ('srv \<Rightarrow> 'm ServerStream \<Rightarrow> world \<Rightarrow> error option \<times> world) \<Rightarrow>
   world \<Rightarrow> error option \<times> world" where
  "GRPCStreamServerInterceptor tc srv ss info handler w =
     (let md = FromIncomingContext (ss_Context ss);
          w1 = logPrintf ''intercepting server'' w
      in case MD_lookup md grpcMetadataKey w1 of
           Some header \<Rightarrow>
             (let (span, w2) = SpanFromHeader tc [] (concat header) w1;
                  w3 = logPrintf ('' intercept trace '' @ TraceID span w2) w2;
                  ctx = NewContext (ss_Context ss) span;
                  ss1 = ServerStreamWrapper_iface
                          \<lparr>ssw_stream = ss, ssw_span = span, ssw_context = ctx\<rparr>;
                  (err, w4) = handler srv ss1 w3;
                  w5 = logPrintf ('' defer finishing trace '' @ TraceID span w4) w4
              in (err, Finish span w5))
         | None \<Rightarrow> handler srv ss w1)"

subsection \<open>Vocabulary of the properties\<close>

text \<open>
  The calls on a wrapper that can finish its span, by name, so that a property can range
  over them: \<open>clientCall\<close> and \<open>serverCall\<close> are the wrapper's methods,
  \<open>clientStreamCall\<close> and \<open>serverStreamCall\<close> the same methods of the stream underneath.
  A call is a trigger in a state when it finishes the span there: \<^verbatim>\<open>CloseSend\<close> always,
  \<^verbatim>\<open>SendMsg\<close> and \<^verbatim>\<open>RecvMsg\<close> when the underlying call returns an error.
\<close>

datatype clientOp = OpCloseSend | OpSendMsg | OpRecvMsg

datatype serverOp = OpSrvSendMsg | OpSrvRecvMsg

fun clientCall ::
  "clientOp \<Rightarrow> 'm ClientStreamWrapper \<Rightarrow> 'm \<Rightarrow> world \<Rightarrow> error option \<times> world" where
  "clientCall OpCloseSend s m w = ClientStreamWrapper_CloseSend s w"
| "clientCall OpSendMsg s m w = ClientStreamWrapper_SendMsg s m w"
| "clientCall OpRecvMsg s m w = ClientStreamWrapper_RecvMsg s m w"

fun clientStreamCall ::
  "clientOp \<Rightarrow> 'm ClientStream \<Rightarrow> 'm \<Rightarrow> world \<Rightarrow> error option \<times> world" where
  "clientStreamCall OpCloseSend st m w = cs_CloseSend st w"
| "clientStreamCall OpSendMsg st m w = cs_SendMsg st m w"
| "clientStreamCall OpRecvMsg st m w = cs_RecvMsg st m w"

fun clientTrigger :: "clientOp \<Rightarrow> 'm ClientStreamWrapper \<Rightarrow> 'm \<Rightarrow> world \<Rightarrow> bool" where
  "clientTrigger OpCloseSend s m w = True"
| "clientTrigger OpSendMsg s m w = (fst (cs_SendMsg (csw_stream s) m w) \<noteq> None)"
| "clientTrigger OpRecvMsg s m w = (fst (cs_RecvMsg (csw_stream s) m w) \<noteq> None)"

fun serverCall ::
  "serverOp \<Rightarrow> 'm ServerStreamWrapper \<Rightarrow> 'm \<Rightarrow> world \<Rightarrow> error option \<times> world" where
  "serverCall OpSrvSendMsg s m w = ServerStreamWrapper_SendMsg s m w"
| "serverCall OpSrvRecvMsg s m w = ServerStreamWrapper_RecvMsg s m w"

fun serverStreamCall ::
  "serverOp \<Rightarrow> 'm ServerStream \<Rightarrow> 'm \<Rightarrow> world \<Rightarrow> error option \<times> world" where
  "serverStreamCall OpSrvSendMsg st m w = ss_SendMsg st m w"
| "serverStreamCall OpSrvRecvMsg st m w = ss_RecvMsg st m w"

fun serverTrigger :: "serverOp \<Rightarrow> 'm ServerStreamWrapper \<Rightarrow> 'm \<Rightarrow> world \<Rightarrow> bool" where
  "serverTrigger OpSrvSendMsg s m w = (fst (ss_SendMsg (ssw_stream s) m w) \<noteq> None)"
| "serverTrigger OpSrvRecvMsg s m w = (fst (ss_RecvMsg (ssw_stream s) m w) \<noteq> None)"

text \<open>
  The transport underneath a wrapper knows nothing of tracing: its calls leave the
  spans and the reported spans as they are.
\<close>

definition traceFrame :: "(world \<Rightarrow> 'r \<times> world) \<Rightarrow> bool" where
  "traceFrame f = (\<forall>w. spans (snd (f w)) = spans w \<and> reported (snd (f w)) = reported w)"

definition transportClient :: "'m ClientStream \<Rightarrow> bool" where
  "transportClient st =
     (traceFrame (cs_CloseSend st) \<and> (\<forall>m. traceFrame (cs_SendMsg st m))
      \<and> (\<forall>m. traceFrame (cs_RecvMsg st m)))"

definition transportServer :: "'m ServerStream \<Rightarrow> bool" where
  "transportServer st =
     ((\<forall>m. traceFrame (ss_SendMsg st m)) \<and> (\<forall>m. traceFrame (ss_RecvMsg st m)))"

subsection \<open>Example values\<close>

text \<open>
  Concrete values on which the properties below are evaluated: a world with one
  unfinished span at address 0 and two metadata maps, a context that carries the span
  and the maps, and streams whose send and receive always fail.
\<close>

definition exSpan :: Span where
  "exSpan = \<lparr>spanName = ''root'', traceID = ''105445aa7843bc8bf206b12000100000'',
             globalOptions = 1, SpanId = 7, ParentSpanId = 0,
             labels = Map.empty, finished = False\<rparr>"

definition exWorld :: world where
  "exWorld = \<lparr>spans = (\<lambda>_. exSpan), nextSpan = 1, spanIDs = (\<lambda>n. word_of_nat n + 100),
              reported = [],
              mds = (\<lambda>_. Map.empty)
                      (0 := [''user-agent'' \<mapsto> [''demo'']],
                       1 := [grpcMetadataKey \<mapsto> [''abc/4'', ''2;o=1'']]),
              nextMD = 2, logs = []\<rparr>"

definition exCtx :: Context where
  "exCtx = \<lparr>ctxSpan = Some 0, outgoingMD = Some 0, incomingMD = Some 1\<rparr>"

definition plainCtx :: Context where
  "plainCtx = \<lparr>ctxSpan = None, outgoingMD = None, incomingMD = None\<rparr>"

definition brokenClientStream :: "unit ClientStream" where
  "brokenClientStream =
     \<lparr>cs_Header = (\<lambda>w. ((None, Some (Err ''EOF'')), w)),
      cs_Trailer = (\<lambda>w. (None, w)),
      cs_CloseSend = (\<lambda>w. (None, w)),
      cs_Context = exCtx,
      cs_SendMsg = (\<lambda>m w. (Some (Err ''EOF''), w)),
      cs_RecvMsg = (\<lambda>m w. (Some (Err ''EOF''), w))\<rparr>"

definition brokenServerStream :: "unit ServerStream" where
  "brokenServerStream =
     \<lparr>ss_SetHeader = (\<lambda>md w. (None, w)),
      ss_SendHeader = (\<lambda>md w. (None, w)),
      ss_SetTrailer = (\<lambda>md w. w),
      ss_Context = exCtx,
      ss_SendMsg = (\<lambda>m w. (Some (Err ''EOF''), w)),
      ss_RecvMsg = (\<lambda>m w. (Some (Err ''EOF''), w))\<rparr>"

text \<open>
  Closures for the examples: an invoker that returns, as its error, the trace header it
  finds in the outgoing metadata of its context; invokers and streamers that succeed
  or fail without touching the state; a handler that answers with the parent-span-id
  of the span in its context.
\<close>

definition headerProbe ::
  "Context \<Rightarrow> string \<Rightarrow> unit \<Rightarrow> unit \<Rightarrow> unit \<Rightarrow> unit \<Rightarrow> world \<Rightarrow> error option \<times> world" where
  "headerProbe ctx method req reply cc opts w =
     (case MD_lookup (FromOutgoingContext ctx) grpcMetadataKey w of
        None \<Rightarrow> (None, w)
      | Some vs \<Rightarrow> (Some (Err (concat vs)), w))"

definition failInvoker ::
  "Context \<Rightarrow> string \<Rightarrow> unit \<Rightarrow> unit \<Rightarrow> unit \<Rightarrow> unit \<Rightarrow> world \<Rightarrow> error option \<times> world" where
  "failInvoker ctx method req reply cc opts w = (Some (Err ''unavailable''), w)"

definition okInvoker ::
  "Context \<Rightarrow> string \<Rightarrow> unit \<Rightarrow> unit \<Rightarrow> unit \<Rightarrow> unit \<Rightarrow> world \<Rightarrow> error option \<times> world" where
  "okInvoker ctx method req reply cc opts w = (None, w)"

definition failStreamer ::
  "Context \<Rightarrow> unit \<Rightarrow> unit \<Rightarrow> string \<Rightarrow> unit \<Rightarrow> world \<Rightarrow> (error + unit ClientStream) \<times> world" where
  "failStreamer ctx desc cc method opts w = (Inl (Err ''unavailable''), w)"

definition okStreamer ::
  "Context \<Rightarrow> unit \<Rightarrow> unit \<Rightarrow> string \<Rightarrow> unit \<Rightarrow> world \<Rightarrow> (error + unit ClientStream) \<times> world" where
  "okStreamer ctx desc cc method opts w = (Inr brokenClientStream, w)"

definition spanProbe :: "Context \<Rightarrow> unit \<Rightarrow> world \<Rightarrow> (string \<times> error option) \<times> world" where
  "spanProbe ctx req w =
     (((case FromContext ctx of
          None \<Rightarrow> ''no span''
        | Some c \<Rightarrow> formatUint (unat (ParentSpanId (spans w c)))), None), w)"

text \<open>
  Stream handlers for the examples: one that returns at once, one that tries to send and
  returns what the send returns, one that answers with the parent-span-id of the span
  in the stream's context.
\<close>

definition quietHandler :: "unit \<Rightarrow> unit ServerStream \<Rightarrow> world \<Rightarrow> error option \<times> world" where
  "quietHandler srv ss w = (None, w)"

definition sendingHandler :: "unit \<Rightarrow> unit ServerStream \<Rightarrow> world \<Rightarrow> error option \<times> world" where
  "sendingHandler srv ss w = ss_SendMsg ss () w"

definition streamSpanProbe :: "unit \<Rightarrow> unit ServerStream \<Rightarrow> world \<Rightarrow> error option \<times> world" where
  "streamSpanProbe srv ss w =
     (case FromContext (ss_Context ss) of
        None \<Rightarrow> (None, w)
      | Some c \<Rightarrow> (Some (Err (formatUint (unat (ParentSpanId (spans w c))))), w))"

section \<open>Properties\<close>

subsection \<open>Decimal printing and reading\<close>

lemma below_ten:
  "d < (10::nat) \<Longrightarrow>
   d = 0 \<or> d = 1 \<or> d = 2 \<or> d = 3 \<or> d = 4 \<or> d = 5 \<or> d = 6 \<or> d = 7 \<or> d = 8 \<or> d = 9"
  by arith

lemma isDigit_digitChar: "d < 10 \<Longrightarrow> isDigit (digitChar d)"
  by (drule below_ten) (auto simp: isDigit_def digitChar_def)

lemma digitVal_digitChar: "d < 10 \<Longrightarrow> digitVal (digitChar d) = d"
  by (drule below_ten) (auto simp: digitVal_def digitChar_def)

lemma formatUint_nonempty: "formatUint n \<noteq> []"
  by (subst formatUint.simps) simp

lemma formatUint_digits: "list_all isDigit (formatUint n)"
proof (induction n rule: formatUint.induct)
  case (1 n)
  show ?case
  proof (cases "n < 10")
    case True
    then show ?thesis
      by (subst formatUint.simps) (simp add: isDigit_digitChar)
  next
    case False
    with 1 show ?thesis
      by (subst formatUint.simps) (simp add: isDigit_digitChar)
  qed
qed

lemma formatUint_value: "foldl (\<lambda>a c. 10 * a + digitVal c) 0 (formatUint n) = n"
proof (induction n rule: formatUint.induct)
  case (1 n)
  show ?case
  proof (cases "n < 10")
    case True
    then show ?thesis
      by (subst formatUint.simps) (simp add: digitVal_digitChar)
  next
    case False
    with 1 show ?thesis
      by (subst formatUint.simps) (simp add: digitVal_digitChar)
  qed
qed

lemma parseUint_formatUint: "parseUint (formatUint n) = Some n"
  by (simp add: parseUint_def formatUint_nonempty formatUint_digits formatUint_value)

lemma isDigit_not_semicolon: "isDigit c \<Longrightarrow> c \<noteq> CHR '';''"
  by (auto simp: isDigit_def)

lemma formatUint_no_semicolon: "CHR '';'' \<notin> set (formatUint n)"
  using formatUint_digits [of n] isDigit_not_semicolon by (auto simp: list_all_iff)

subsection \<open>Splitting at a separator\<close>

lemma takeWhile_sep: "c \<notin> set xs \<Longrightarrow> takeWhile (\<lambda>x. x \<noteq> c) (xs @ c # ys) = xs"
  by (subst takeWhile_append2) auto

lemma dropWhile_sep:
  "c \<notin> set xs \<Longrightarrow> drop 1 (dropWhile (\<lambda>x. x \<noteq> c) (xs @ c # ys)) = ys"
  by (subst dropWhile_append2) auto

lemma decode_spanHeader:
  assumes "CHR ''/'' \<notin> set t"
  shows "decode (spanHeader t s opts) = (t, s, opts)"
proof -
  let ?d = "formatUint (unat s)" and ?e = "formatUint opts"
  have semi: "CHR '';'' \<notin> set ?d"
    by (rule formatUint_no_semicolon)
  have hdr: "spanHeader t s opts = t @ CHR ''/'' # (?d @ CHR '';'' # (''o='' @ ?e))"
    by (simp add: spanHeader_def)
  have t1: "takeWhile (\<lambda>c. c \<noteq> CHR ''/'') (spanHeader t s opts) = t"
    unfolding hdr using assms by (rule takeWhile_sep)
  have t2: "drop 1 (dropWhile (\<lambda>c. c \<noteq> CHR ''/'') (spanHeader t s opts))
              = ?d @ CHR '';'' # (''o='' @ ?e)"
    unfolding hdr using assms by (rule dropWhile_sep)
  have t3: "takeWhile (\<lambda>c. c \<noteq> CHR '';'') (?d @ CHR '';'' # (''o='' @ ?e)) = ?d"
    using semi by (rule takeWhile_sep)
  have t4: "drop 1 (dropWhile (\<lambda>c. c \<noteq> CHR '';'') (?d @ CHR '';'' # (''o='' @ ?e)))
              = ''o='' @ ?e"
    using semi by (rule dropWhile_sep)
  have lt: "unat s < 2 ^ 64"
    using unsigned_less [of s] by simp
  show ?thesis
    unfolding decode_def Let_def t1 t2 t3 t4
    using lt by (simp add: parseUint_formatUint)
qed

subsection \<open>Header round trip\<close>

text \<open>
  Claim C5. Decoding the header that encodes a triple returns the triple: for every
  trace id in identifier form (no \<^verbatim>\<open>/\<close> in it, as in the hexadecimal form of a 128-bit
  id), every 64-bit span id and every options value,
  \<open>decode (encode (t, s, o)) = (t, s, o)\<close>, where encode is \<open>spanHeader\<close> and writes
  \<^verbatim>\<open><traceID>/<spanID>;o=<options>\<close> with the two numbers in decimal (the digits that
  \<open>parseUint\<close> reads back as the number).
\<close>

theorem header_roundtrip:
  assumes "CHR ''/'' \<notin> set t"
  shows "spanHeader t s opts = t @ ''/'' @ formatUint (unat s) @ '';o='' @ formatUint opts
         \<and> parseUint (formatUint (unat s)) = Some (unat s)
         \<and> parseUint (formatUint opts) = Some opts
         \<and> decode (spanHeader t s opts) = (t, s, opts)"
proof (intro conjI)
  show "spanHeader t s opts = t @ ''/'' @ formatUint (unat s) @ '';o='' @ formatUint opts"
    by (simp add: spanHeader_def)
  show "parseUint (formatUint (unat s)) = Some (unat s)"
    by (rule parseUint_formatUint)
  show "parseUint (formatUint opts) = Some opts"
    by (rule parseUint_formatUint)
  from assms show "decode (spanHeader t s opts) = (t, s, opts)"
    by (rule decode_spanHeader)
qed

theorem header_roundtrip_witness:
  "CHR ''/'' \<notin> set ''105445aa7843bc8bf206b12000100000''
   \<and> spanHeader ''105445aa7843bc8bf206b12000100000'' 42 1
       = ''105445aa7843bc8bf206b12000100000/42;o=1''
   \<and> decode ''105445aa7843bc8bf206b12000100000/42;o=1''
       = (''105445aa7843bc8bf206b12000100000'', 42, 1)"
proof -
  have h: "CHR ''/'' \<notin> set ''105445aa7843bc8bf206b12000100000''"
    by simp
  have e: "spanHeader ''105445aa7843bc8bf206b12000100000'' 42 1
             = ''105445aa7843bc8bf206b12000100000/42;o=1''"
    by (simp add: spanHeader_def formatUint.simps digitChar_def)
  from header_roundtrip [OF h, of 42 1]
  have "decode (spanHeader ''105445aa7843bc8bf206b12000100000'' 42 1)
          = (''105445aa7843bc8bf206b12000100000'', 42, 1)"
    by blast
  then have "decode ''105445aa7843bc8bf206b12000100000/42;o=1''
               = (''105445aa7843bc8bf206b12000100000'', 42, 1)"
    unfolding e .
  with h e show ?thesis
    by blast
qed

subsection \<open>Finishing a span\<close>

lemma Finish_None: "Finish None w = w"
  by (simp add: Finish_def)

lemma Finish_finished: "finished (spans w a) \<Longrightarrow> Finish (Some a) w = w"
  by (simp add: Finish_def)

lemma finished_Finish: "finished (spans (Finish (Some a) w) a)"
  by (simp add: Finish_def)

lemma reported_Finish:
  "reported (Finish (Some a) w) = (if finished (spans w a) then reported w else reported w @ [a])"
  by (simp add: Finish_def)

lemma labels_Finish: "labels (spans (Finish sp w) c) = labels (spans w c)"
  by (cases sp) (simp_all add: Finish_def)

lemma traceFrame_spans: "traceFrame f \<Longrightarrow> spans (snd (f w)) = spans w"
  by (simp add: traceFrame_def)

lemma traceFrame_reported: "traceFrame f \<Longrightarrow> reported (snd (f w)) = reported w"
  by (simp add: traceFrame_def)

text \<open>Finishing after a transport call.\<close>

lemma Finish_after_frame:
  assumes "traceFrame f"
  shows "finished (spans (Finish (Some a) (snd (f w))) a)"
    and "reported (Finish (Some a) (snd (f w)))
           = (if finished (spans w a) then reported w else reported w @ [a])"
    and "finished (spans w a) \<Longrightarrow> Finish (Some a) (snd (f w)) = snd (f w)"
proof -
  show "finished (spans (Finish (Some a) (snd (f w))) a)"
    by (rule finished_Finish)
  show "reported (Finish (Some a) (snd (f w)))
           = (if finished (spans w a) then reported w else reported w @ [a])"
    by (simp add: reported_Finish traceFrame_spans [OF assms] traceFrame_reported [OF assms])
  show "finished (spans w a) \<Longrightarrow> Finish (Some a) (snd (f w)) = snd (f w)"
    by (rule Finish_finished) (simp add: traceFrame_spans [OF assms])
qed

lemma frame_after_Finish:
  assumes "traceFrame f"
  shows "finished (spans (snd (f (Finish (Some a) w))) a)"
    and "reported (snd (f (Finish (Some a) w)))
           = (if finished (spans w a) then reported w else reported w @ [a])"
  by (simp_all add: traceFrame_spans [OF assms] traceFrame_reported [OF assms]
        finished_Finish reported_Finish)

lemma SendMsg_trigger:
  assumes "csw_span s = Some a" and "fst (cs_SendMsg (csw_stream s) m w) \<noteq> None"
  shows "ClientStreamWrapper_SendMsg s m w
           = (fst (cs_SendMsg (csw_stream s) m w),
              Finish (Some a) (snd (cs_SendMsg (csw_stream s) m w)))"
  using assms by (simp add: ClientStreamWrapper_SendMsg_def split_def Let_def)

lemma RecvMsg_trigger:
  assumes "csw_span s = Some a" and "fst (cs_RecvMsg (csw_stream s) m w) \<noteq> None"
  shows "ClientStreamWrapper_RecvMsg s m w
           = (fst (cs_RecvMsg (csw_stream s) m w),
              Finish (Some a) (snd (cs_RecvMsg (csw_stream s) m w)))"
  using assms by (simp add: ClientStreamWrapper_RecvMsg_def split_def Let_def)

lemma CloseSend_trigger:
  assumes "csw_span s = Some a"
  shows "ClientStreamWrapper_CloseSend s w = cs_CloseSend (csw_stream s) (Finish (Some a) w)"
  using assms by (simp add: ClientStreamWrapper_CloseSend_def)

lemma clientCall_trigger:
  assumes sp: "csw_span s = Some a" and tr: "transportClient (csw_stream s)"
    and trig: "clientTrigger op s m w"
  shows "finished (spans (snd (clientCall op s m w)) a)"
    and "reported (snd (clientCall op s m w))
           = (if finished (spans w a) then reported w else reported w @ [a])"
    and "finished (spans w a) \<Longrightarrow> spans (snd (clientCall op s m w)) = spans w"
    and "finished (spans w a) \<Longrightarrow>
           fst (clientCall op s m w) = fst (clientStreamCall op (csw_stream s) m w)"
proof -
  from tr have f1: "traceFrame (cs_CloseSend (csw_stream s))"
    and f2: "traceFrame (cs_SendMsg (csw_stream s) m)"
    and f3: "traceFrame (cs_RecvMsg (csw_stream s) m)"
    by (simp_all add: transportClient_def)
  show "finished (spans (snd (clientCall op s m w)) a)"
  proof (cases op)
    case OpCloseSend
    then show ?thesis
      by (simp add: CloseSend_trigger [OF sp] frame_after_Finish [OF f1])
  next
    case OpSendMsg
    with trig show ?thesis
      by (simp add: SendMsg_trigger [OF sp] Finish_after_frame [OF f2])
  next
    case OpRecvMsg
    with trig show ?thesis
      by (simp add: RecvMsg_trigger [OF sp] Finish_after_frame [OF f3])
  qed
  show "reported (snd (clientCall op s m w))
           = (if finished (spans w a) then reported w else reported w @ [a])"
  proof (cases op)
    case OpCloseSend
    then show ?thesis
      by (simp add: CloseSend_trigger [OF sp] frame_after_Finish [OF f1])
  next
    case OpSendMsg
    with trig show ?thesis
      by (simp add: SendMsg_trigger [OF sp] Finish_after_frame [OF f2])
  next
    case OpRecvMsg
    with trig show ?thesis
      by (simp add: RecvMsg_trigger [OF sp] Finish_after_frame [OF f3])
  qed
  show "spans (snd (clientCall op s m w)) = spans w" if fin: "finished (spans w a)"
  proof (cases op)
    case OpCloseSend
    then show ?thesis
      by (simp add: CloseSend_trigger [OF sp] Finish_finished [OF fin] traceFrame_spans [OF f1])
  next
    case OpSendMsg
    with trig show ?thesis
      by (simp add: SendMsg_trigger [OF sp] Finish_after_frame(3) [OF f2 fin]
            traceFrame_spans [OF f2])
  next
    case OpRecvMsg
    with trig show ?thesis
      by (simp add: RecvMsg_trigger [OF sp] Finish_after_frame(3) [OF f3 fin]
            traceFrame_spans [OF f3])
  qed
  show "fst (clientCall op s m w) = fst (clientStreamCall op (csw_stream s) m w)"
    if fin: "finished (spans w a)"
  proof (cases op)
    case OpCloseSend
    then show ?thesis
      by (simp add: CloseSend_trigger [OF sp] Finish_finished [OF fin])
  next
    case OpSendMsg
    with trig show ?thesis
      by (simp add: SendMsg_trigger [OF sp])
  next
    case OpRecvMsg
    with trig show ?thesis
      by (simp add: RecvMsg_trigger [OF sp])
  qed
qed


lemma spans_logPrintf: "spans (logPrintf l w) = spans w"
  by (simp add: logPrintf_def)

lemma reported_logPrintf: "reported (logPrintf l w) = reported w"
  by (simp add: logPrintf_def)

lemma mds_logPrintf: "mds (logPrintf l w) = mds w"
  by (simp add: logPrintf_def)

lemma Finish_after_log_frame:
  assumes "traceFrame f"
  shows "finished (spans (Finish (Some a) (logPrintf l (snd (f w)))) a)"
    and "reported (Finish (Some a) (logPrintf l (snd (f w))))
           = (if finished (spans w a) then reported w else reported w @ [a])"
    and "finished (spans w a) \<Longrightarrow>
           Finish (Some a) (logPrintf l (snd (f w))) = logPrintf l (snd (f w))"
proof -
  show "finished (spans (Finish (Some a) (logPrintf l (snd (f w)))) a)"
    by (rule finished_Finish)
  show "reported (Finish (Some a) (logPrintf l (snd (f w))))
           = (if finished (spans w a) then reported w else reported w @ [a])"
    by (simp add: reported_Finish spans_logPrintf reported_logPrintf
          traceFrame_spans [OF assms] traceFrame_reported [OF assms])
  show "finished (spans w a) \<Longrightarrow>
           Finish (Some a) (logPrintf l (snd (f w))) = logPrintf l (snd (f w))"
    by (rule Finish_finished) (simp add: spans_logPrintf traceFrame_spans [OF assms])
qed

lemma SrvSendMsg_trigger:
  assumes "ssw_span s = Some a" and "fst (ss_SendMsg (ssw_stream s) m w) \<noteq> None"
  shows "ServerStreamWrapper_SendMsg s m w
           = (fst (ss_SendMsg (ssw_stream s) m w),
              Finish (Some a)
                (logPrintf ('' finishing trace '' @ TraceID (Some a) (snd (ss_SendMsg (ssw_stream s) m w)))
                   (snd (ss_SendMsg (ssw_stream s) m w))))"
  using assms by (simp add: ServerStreamWrapper_SendMsg_def split_def Let_def)

lemma SrvRecvMsg_trigger:
  assumes "ssw_span s = Some a" and "fst (ss_RecvMsg (ssw_stream s) m w) \<noteq> None"
  shows "ServerStreamWrapper_RecvMsg s m w
           = (fst (ss_RecvMsg (ssw_stream s) m w),
              Finish (Some a)
                (logPrintf ('' finishing trace '' @ TraceID (Some a) (snd (ss_RecvMsg (ssw_stream s) m w)))
                   (snd (ss_RecvMsg (ssw_stream s) m w))))"
  using assms by (simp add: ServerStreamWrapper_RecvMsg_def split_def Let_def)

lemma serverCall_trigger:
  assumes sp: "ssw_span s = Some a" and tr: "transportServer (ssw_stream s)"
    and trig: "serverTrigger op s m w"
  shows "finished (spans (snd (serverCall op s m w)) a)"
    and "reported (snd (serverCall op s m w))
           = (if finished (spans w a) then reported w else reported w @ [a])"
    and "finished (spans w a) \<Longrightarrow> spans (snd (serverCall op s m w)) = spans w"
    and "fst (serverCall op s m w) = fst (serverStreamCall op (ssw_stream s) m w)"
proof -
  from tr have f2: "traceFrame (ss_SendMsg (ssw_stream s) m)"
    and f3: "traceFrame (ss_RecvMsg (ssw_stream s) m)"
    by (simp_all add: transportServer_def)
  show "finished (spans (snd (serverCall op s m w)) a)"
  proof (cases op)
    case OpSrvSendMsg
    with trig show ?thesis
      by (simp add: SrvSendMsg_trigger [OF sp] Finish_after_log_frame [OF f2])
  next
    case OpSrvRecvMsg
    with trig show ?thesis
      by (simp add: SrvRecvMsg_trigger [OF sp] Finish_after_log_frame [OF f3])
  qed
  show "reported (snd (serverCall op s m w))
           = (if finished (spans w a) then reported w else reported w @ [a])"
  proof (cases op)
    case OpSrvSendMsg
    with trig show ?thesis
      by (simp add: SrvSendMsg_trigger [OF sp] Finish_after_log_frame [OF f2])
  next
    case OpSrvRecvMsg
    with trig show ?thesis
      by (simp add: SrvRecvMsg_trigger [OF sp] Finish_after_log_frame [OF f3])
  qed
  show "spans (snd (serverCall op s m w)) = spans w" if fin: "finished (spans w a)"
  proof (cases op)
    case OpSrvSendMsg
    with trig show ?thesis
      by (simp add: SrvSendMsg_trigger [OF sp] Finish_after_log_frame(3) [OF f2 fin]
            spans_logPrintf traceFrame_spans [OF f2])
  next
    case OpSrvRecvMsg
    with trig show ?thesis
      by (simp add: SrvRecvMsg_trigger [OF sp] Finish_after_log_frame(3) [OF f3 fin]
            spans_logPrintf traceFrame_spans [OF f3])
  qed
  show "fst (serverCall op s m w) = fst (serverStreamCall op (ssw_stream s) m w)"
  proof (cases op)
    case OpSrvSendMsg
    with trig show ?thesis
      by (simp add: SrvSendMsg_trigger [OF sp])
  next
    case OpSrvRecvMsg
    with trig show ?thesis
      by (simp add: SrvRecvMsg_trigger [OF sp])
  qed
qed

lemma client_finish_twice:
  assumes sp: "csw_span s = Some a" and tr: "transportClient (csw_stream s)"
    and fresh: "\<not> finished (spans w a)"
    and t1: "clientTrigger o1 s m1 w"
    and t2: "clientTrigger o2 s m2 (snd (clientCall o1 s m1 w))"
  shows "(let w1 = snd (clientCall o1 s m1 w); (r2, w2) = clientCall o2 s m2 w1
          in r2 = fst (clientStreamCall o2 (csw_stream s) m2 w1)
             \<and> finished (spans w2 a) \<and> spans w2 = spans w1
             \<and> reported w2 = reported w1 \<and> reported w2 = reported w @ [a])"
proof -
  let ?w1 = "snd (clientCall o1 s m1 w)"
  have fin1: "finished (spans ?w1 a)"
    by (rule clientCall_trigger(1) [OF sp tr t1])
  have rep1: "reported ?w1 = reported w @ [a]"
    using clientCall_trigger(2) [OF sp tr t1] fresh by simp
  have fin2: "finished (spans (snd (clientCall o2 s m2 ?w1)) a)"
    by (rule clientCall_trigger(1) [OF sp tr t2])
  have rep2: "reported (snd (clientCall o2 s m2 ?w1)) = reported ?w1"
    using clientCall_trigger(2) [OF sp tr t2] fin1 by simp
  have sp2: "spans (snd (clientCall o2 s m2 ?w1)) = spans ?w1"
    by (rule clientCall_trigger(3) [OF sp tr t2 fin1])
  have r2: "fst (clientCall o2 s m2 ?w1) = fst (clientStreamCall o2 (csw_stream s) m2 ?w1)"
    by (rule clientCall_trigger(4) [OF sp tr t2 fin1])
  show ?thesis
    unfolding Let_def split_def fst_conv snd_conv
    using fin2 rep1 rep2 sp2 r2 by (intro conjI) simp_all
qed

lemma server_finish_twice:
  assumes sp: "ssw_span s = Some a" and tr: "transportServer (ssw_stream s)"
    and fresh: "\<not> finished (spans w a)"
    and t1: "serverTrigger o1 s m1 w"
    and t2: "serverTrigger o2 s m2 (snd (serverCall o1 s m1 w))"
  shows "(let w1 = snd (serverCall o1 s m1 w); (r2, w2) = serverCall o2 s m2 w1
          in r2 = fst (serverStreamCall o2 (ssw_stream s) m2 w1)
             \<and> finished (spans w2 a) \<and> spans w2 = spans w1
             \<and> reported w2 = reported w1 \<and> reported w2 = reported w @ [a])"
proof -
  let ?w1 = "snd (serverCall o1 s m1 w)"
  have fin1: "finished (spans ?w1 a)"
    by (rule serverCall_trigger(1) [OF sp tr t1])
  have rep1: "reported ?w1 = reported w @ [a]"
    using serverCall_trigger(2) [OF sp tr t1] fresh by simp
  have fin2: "finished (spans (snd (serverCall o2 s m2 ?w1)) a)"
    by (rule serverCall_trigger(1) [OF sp tr t2])
  have rep2: "reported (snd (serverCall o2 s m2 ?w1)) = reported ?w1"
    using serverCall_trigger(2) [OF sp tr t2] fin1 by simp
  have sp2: "spans (snd (serverCall o2 s m2 ?w1)) = spans ?w1"
    by (rule serverCall_trigger(3) [OF sp tr t2 fin1])
  have r2: "fst (serverCall o2 s m2 ?w1) = fst (serverStreamCall o2 (ssw_stream s) m2 ?w1)"
    by (rule serverCall_trigger(4) [OF sp tr t2])
  show ?thesis
    unfolding Let_def split_def fst_conv snd_conv
    using fin2 rep1 rep2 sp2 r2 by (intro conjI) simp_all
qed


subsection \<open>Two triggers, one report\<close>

text \<open>
  Claim C1. A stream wrapper, client or server, whose span is finished by two trigger
  paths in sequence (any of a failed \<^verbatim>\<open>SendMsg\<close>, a failed \<^verbatim>\<open>RecvMsg\<close> and, on the client,
  \<^verbatim>\<open>CloseSend\<close>, in any order): the second trigger does not fault, it returns what the
  underlying stream returns, it leaves the spans and the reported spans as the first
  trigger left them, and the span is reported exactly once. The wrapper itself calls
  \<^verbatim>\<open>Finish\<close> at each trigger without a guard of its own; that the second call reports
  nothing is the idempotence of \<open>Finish\<close>, which is modelled from the spec. The
  underlying stream is a transport that does not touch the spans.
\<close>

theorem finish_once_across_triggers:
  "(csw_span cw = Some a \<and> transportClient (csw_stream cw)
      \<and> \<not> finished (spans w a) \<and> a \<notin> set (reported w)
      \<and> clientTrigger o1 cw m1 w \<and> clientTrigger o2 cw m2 (snd (clientCall o1 cw m1 w))
    \<longrightarrow> (let w1 = snd (clientCall o1 cw m1 w); (r2, w2) = clientCall o2 cw m2 w1
         in r2 = fst (clientStreamCall o2 (csw_stream cw) m2 w1)
            \<and> finished (spans w2 a) \<and> spans w2 = spans w1 \<and> reported w2 = reported w1
            \<and> count_list (reported w2) a = 1))
   \<and> (ssw_span sw = Some b \<and> transportServer (ssw_stream sw)
      \<and> \<not> finished (spans v b) \<and> b \<notin> set (reported v)
      \<and> serverTrigger p1 sw n1 v \<and> serverTrigger p2 sw n2 (snd (serverCall p1 sw n1 v))
    \<longrightarrow> (let v1 = snd (serverCall p1 sw n1 v); (r2, v2) = serverCall p2 sw n2 v1
         in r2 = fst (serverStreamCall p2 (ssw_stream sw) n2 v1)
            \<and> finished (spans v2 b) \<and> spans v2 = spans v1 \<and> reported v2 = reported v1
            \<and> count_list (reported v2) b = 1))"
proof (intro conjI impI)
  assume h: "csw_span cw = Some a \<and> transportClient (csw_stream cw)
      \<and> \<not> finished (spans w a) \<and> a \<notin> set (reported w)
      \<and> clientTrigger o1 cw m1 w \<and> clientTrigger o2 cw m2 (snd (clientCall o1 cw m1 w))"
  then have "a \<notin> set (reported w)" by simp
  then have cnt: "count_list (reported w @ [a]) a = 1"
    by (simp add: count_list_0_iff)
  from h have "csw_span cw = Some a" "transportClient (csw_stream cw)"
    "\<not> finished (spans w a)" "clientTrigger o1 cw m1 w"
    "clientTrigger o2 cw m2 (snd (clientCall o1 cw m1 w))"
    by simp_all
  note twice = client_finish_twice [OF this, unfolded Let_def split_def]
  from twice have rep: "reported (snd (clientCall o2 cw m2 (snd (clientCall o1 cw m1 w))))
                          = reported w @ [a]"
    by blast
  have "count_list (reported (snd (clientCall o2 cw m2 (snd (clientCall o1 cw m1 w))))) a = 1"
    unfolding rep by (rule cnt)
  with twice
  show "let w1 = snd (clientCall o1 cw m1 w); (r2, w2) = clientCall o2 cw m2 w1
         in r2 = fst (clientStreamCall o2 (csw_stream cw) m2 w1)
            \<and> finished (spans w2 a) \<and> spans w2 = spans w1 \<and> reported w2 = reported w1
            \<and> count_list (reported w2) a = 1"
    unfolding Let_def split_def by blast
next
  assume h: "ssw_span sw = Some b \<and> transportServer (ssw_stream sw)
      \<and> \<not> finished (spans v b) \<and> b \<notin> set (reported v)
      \<and> serverTrigger p1 sw n1 v \<and> serverTrigger p2 sw n2 (snd (serverCall p1 sw n1 v))"
  then have "b \<notin> set (reported v)" by simp
  then have cnt: "count_list (reported v @ [b]) b = 1"
    by (simp add: count_list_0_iff)
  from h have "ssw_span sw = Some b" "transportServer (ssw_stream sw)"
    "\<not> finished (spans v b)" "serverTrigger p1 sw n1 v"
    "serverTrigger p2 sw n2 (snd (serverCall p1 sw n1 v))"
    by simp_all
  note twice = server_finish_twice [OF this, unfolded Let_def split_def]
  from twice have rep: "reported (snd (serverCall p2 sw n2 (snd (serverCall p1 sw n1 v))))
                          = reported v @ [b]"
    by blast
  have "count_list (reported (snd (serverCall p2 sw n2 (snd (serverCall p1 sw n1 v))))) b = 1"
    unfolding rep by (rule cnt)
  with twice
  show "let v1 = snd (serverCall p1 sw n1 v); (r2, v2) = serverCall p2 sw n2 v1
         in r2 = fst (serverStreamCall p2 (ssw_stream sw) n2 v1)
            \<and> finished (spans v2 b) \<and> spans v2 = spans v1 \<and> reported v2 = reported v1
            \<and> count_list (reported v2) b = 1"
    unfolding Let_def split_def by blast
qed

theorem finish_once_across_triggers_witness:
  "count_list (reported (snd (clientCall OpRecvMsg \<lparr>csw_stream = brokenClientStream, csw_span = Some 0\<rparr> ()
       (snd (clientCall OpSendMsg \<lparr>csw_stream = brokenClientStream, csw_span = Some 0\<rparr> () exWorld))))) 0 = 1
   \<and> fst (clientCall OpRecvMsg \<lparr>csw_stream = brokenClientStream, csw_span = Some 0\<rparr> ()
       (snd (clientCall OpSendMsg \<lparr>csw_stream = brokenClientStream, csw_span = Some 0\<rparr> () exWorld)))
       = Some (Err ''EOF'')
   \<and> count_list (reported (snd (serverCall OpSrvRecvMsg
         \<lparr>ssw_stream = brokenServerStream, ssw_span = Some 0, ssw_context = exCtx\<rparr> ()
       (snd (serverCall OpSrvSendMsg
         \<lparr>ssw_stream = brokenServerStream, ssw_span = Some 0, ssw_context = exCtx\<rparr> () exWorld))))) 0 = 1"
proof -
  let ?cw = "\<lparr>csw_stream = brokenClientStream, csw_span = Some 0\<rparr>"
  let ?sw = "\<lparr>ssw_stream = brokenServerStream, ssw_span = Some 0, ssw_context = exCtx\<rparr>"
  let ?w1 = "snd (clientCall OpSendMsg ?cw () exWorld)"
  let ?v1 = "snd (serverCall OpSrvSendMsg ?sw () exWorld)"
  have c: "csw_span ?cw = Some 0 \<and> transportClient (csw_stream ?cw)
      \<and> \<not> finished (spans exWorld 0) \<and> 0 \<notin> set (reported exWorld)
      \<and> clientTrigger OpSendMsg ?cw () exWorld
      \<and> clientTrigger OpRecvMsg ?cw () ?w1"
    by (simp add: transportClient_def traceFrame_def brokenClientStream_def exWorld_def exSpan_def)
  have s: "ssw_span ?sw = Some 0 \<and> transportServer (ssw_stream ?sw)
      \<and> \<not> finished (spans exWorld 0) \<and> 0 \<notin> set (reported exWorld)
      \<and> serverTrigger OpSrvSendMsg ?sw () exWorld
      \<and> serverTrigger OpSrvRecvMsg ?sw () ?v1"
    by (simp add: transportServer_def traceFrame_def brokenServerStream_def exWorld_def exSpan_def)
  have e: "fst (clientStreamCall OpRecvMsg (csw_stream ?cw) () ?w1) = Some (Err ''EOF'')"
    by (simp add: brokenClientStream_def)
  note T = finish_once_across_triggers [of ?cw 0 exWorld OpSendMsg "()" OpRecvMsg "()"
        ?sw 0 exWorld OpSrvSendMsg "()" OpSrvRecvMsg "()", unfolded Let_def split_def]
  from T c have C: "fst (clientCall OpRecvMsg ?cw () ?w1)
                      = fst (clientStreamCall OpRecvMsg (csw_stream ?cw) () ?w1)
                    \<and> count_list (reported (snd (clientCall OpRecvMsg ?cw () ?w1))) 0 = 1"
    by blast
  from T s have S: "count_list (reported (snd (serverCall OpSrvRecvMsg ?sw () ?v1))) 0 = 1"
    by blast
  from C e S show ?thesis
    by (intro conjI) simp_all
qed

subsection \<open>Child spans and header injection\<close>

lemma NewChild_None: "NewChild None name w = (None, w)"
  by (simp add: NewChild_def)

lemma NewChild_Some:
  "NewChild (Some p) name w =
     (Some (nextSpan w),
      w\<lparr>spans := (spans w)(nextSpan w :=
            \<lparr>spanName = name, traceID = traceID (spans w p),
             globalOptions = globalOptions (spans w p),
             SpanId = spanIDs w (nextSpan w), ParentSpanId = SpanId (spans w p),
             labels = Map.empty, finished = False\<rparr>),
         nextSpan := Suc (nextSpan w)\<rparr>)"
  by (simp add: NewChild_def allocSpan_def Let_def)

lemma mds_NewChild: "mds (snd (NewChild sp name w)) = mds w"
  by (cases sp) (simp_all add: NewChild_None NewChild_Some)

lemma nextMD_NewChild: "nextMD (snd (NewChild sp name w)) = nextMD w"
  by (cases sp) (simp_all add: NewChild_None NewChild_Some)

lemma injectHeader_None: "injectHeader None ctx w = (ctx, w)"
  by (simp add: injectHeader_def)

lemma injectHeader_Some:
  "injectHeader (Some c) ctx w =
     (NewOutgoingContext ctx (nextMD w),
      w\<lparr>mds := (mds w)(nextMD w :=
            (case FromOutgoingContext ctx of None \<Rightarrow> Map.empty | Some a \<Rightarrow> mds w a)
              (grpcMetadataKey \<mapsto>
                 [spanHeader (traceID (spans w c)) (ParentSpanId (spans w c))
                    (globalOptions (spans w c))])),
         nextMD := Suc (nextMD w)\<rparr>)"
  by (cases "FromOutgoingContext ctx")
     (simp_all add: injectHeader_def metadata_Pairs_def MD_Copy_def MD_set_def allocMD_def
        Let_def)

lemma spans_injectHeader: "spans (snd (injectHeader sp ctx w)) = spans w"
  by (cases sp) (simp_all add: injectHeader_None injectHeader_Some)

lemma injectHeader_copy:
  assumes out: "FromOutgoingContext ctx = Some a" and alloc: "a < nextMD w"
  shows "FromOutgoingContext (fst (injectHeader (Some c) ctx w)) = Some (nextMD w)"
    and "nextMD w \<noteq> a"
    and "mds (snd (injectHeader (Some c) ctx w)) (nextMD w)
           = (mds w a)(grpcMetadataKey \<mapsto>
                [spanHeader (traceID (spans w c)) (ParentSpanId (spans w c))
                   (globalOptions (spans w c))])"
    and "mds (snd (injectHeader (Some c) ctx w)) a = mds w a"
  using assms
  by (simp_all add: injectHeader_Some FromOutgoingContext_def NewOutgoingContext_def)

lemma mds_injectHeader_old:
  "a < nextMD w \<Longrightarrow> mds (snd (injectHeader sp ctx w)) a = mds w a"
  by (cases sp) (simp_all add: injectHeader_None injectHeader_Some)

lemma mds_Finish: "mds (Finish sp w) = mds w"
  by (cases sp) (simp_all add: Finish_def)

lemma mds_SetLabel: "mds (SetLabel sp k v w) = mds w"
  by (cases sp) (simp_all add: SetLabel_def)

lemma labels_SetLabel:
  "labels (spans (SetLabel (Some c) k v w) c) = (labels (spans w c))(k \<mapsto> v)"
  by (simp add: SetLabel_def)

lemma SetLabel_None: "SetLabel None k v w = w"
  by (simp add: SetLabel_def)

lemma grpcUnaryInterceptor_unfold:
  "grpcUnaryInterceptor ctx method req reply cc invoker opts w =
     (let span = fst (NewChild (FromContext ctx) method w);
          X = injectHeader span ctx (snd (NewChild (FromContext ctx) method w));
          R = invoker (fst X) method req reply cc opts (snd X)
      in (fst R, Finish span (case fst R of None \<Rightarrow> snd R
                               | Some e \<Rightarrow> SetLabel span ''error'' (message e) (snd R))))"
  by (simp add: grpcUnaryInterceptor_def split_def Let_def)

lemma grpcStreamClientInterceptor_unfold:
  "grpcStreamClientInterceptor ctx desc cc method streamer opts w =
     (let span = fst (NewChild (FromContext ctx) method w);
          X = injectHeader span ctx (snd (NewChild (FromContext ctx) method w));
          R = streamer (fst X) desc cc method opts (snd X)
      in case fst R of
           Inl err \<Rightarrow> ((None, Some err), Finish span (snd R))
         | Inr cs \<Rightarrow> ((Some \<lparr>csw_stream = cs, csw_span = span\<rparr>, None), snd R))"
  by (simp add: grpcStreamClientInterceptor_def split_def Let_def split: sum.split)

lemma MD_lookup_logPrintf: "MD_lookup md k (logPrintf l w) = MD_lookup md k w"
  by (cases md) (simp_all add: MD_lookup_def logPrintf_def)

text \<open>The definitions that an evaluation on the example values unfolds.\<close>

lemmas eval_defs =
  grpcUnaryInterceptor_def NewChild_def allocSpan_def injectHeader_def
  metadata_Pairs_def MD_Copy_def MD_set_def allocMD_def MD_lookup_def
  FromContext_def NewContext_def FromOutgoingContext_def NewOutgoingContext_def
  FromIncomingContext_def Finish_def SetLabel_def TraceID_def logPrintf_def
  spanHeader_def digitChar_def grpcMetadataKey_def
  exWorld_def exSpan_def exCtx_def plainCtx_def

subsection \<open>Unary client: the injected header\<close>

text \<open>
  Claim C3. A unary client call whose context carries an ambient span \<open>S\<close> (at address
  \<open>p\<close>, with a trace id in identifier form): the invoker is called with a context
  \<open>ctx1\<close> in a state \<open>w2\<close> (the same for every invoker, so they are the arguments of
  the call) whose outgoing metadata holds exactly one value \<open>h\<close> under
  \<^verbatim>\<open>x-cloud-trace-context\<close>; \<open>h\<close> decodes to the trace id, the span id and the options
  of \<open>S\<close>, and a span reconstructed from \<open>h\<close> has the span id of \<open>S\<close> as its
  parent-span-id.
\<close>

theorem unary_client_header:
  assumes amb: "FromContext ctx = Some p"
    and tid: "CHR ''/'' \<notin> set (traceID (spans w p))"
  shows "\<exists>ctx1 w2 md h.
           (\<forall>invoker. fst (grpcUnaryInterceptor ctx method req reply cc invoker opts w)
                        = fst (invoker ctx1 method req reply cc opts w2))
         \<and> FromOutgoingContext ctx1 = Some md
         \<and> mds w2 md grpcMetadataKey = Some [h]
         \<and> decode h = (traceID (spans w p), SpanId (spans w p), globalOptions (spans w p))
         \<and> (\<exists>c. fst (SpanFromHeader tc name h v) = Some c
                \<and> ParentSpanId (spans (snd (SpanFromHeader tc name h v)) c)
                    = SpanId (spans w p))"
proof -
  let ?c = "nextSpan w"
  let ?w1 = "snd (NewChild (Some p) method w)"
  let ?X = "injectHeader (Some ?c) ctx ?w1"
  let ?h = "spanHeader (traceID (spans w p)) (SpanId (spans w p)) (globalOptions (spans w p))"
  have call: "\<forall>invoker. fst (grpcUnaryInterceptor ctx method req reply cc invoker opts w)
                        = fst (invoker (fst ?X) method req reply cc opts (snd ?X))"
    by (simp add: grpcUnaryInterceptor_unfold amb NewChild_Some Let_def)
  have out: "FromOutgoingContext (fst ?X) = Some (nextMD w)"
    by (simp add: injectHeader_Some NewChild_Some FromOutgoingContext_def NewOutgoingContext_def)
  have bag: "mds (snd ?X) (nextMD w) grpcMetadataKey = Some [?h]"
    by (simp add: injectHeader_Some NewChild_Some)
  have dec: "decode ?h = (traceID (spans w p), SpanId (spans w p), globalOptions (spans w p))"
    using tid by (rule decode_spanHeader)
  have srv: "\<exists>c. fst (SpanFromHeader tc name ?h v) = Some c
                \<and> ParentSpanId (spans (snd (SpanFromHeader tc name ?h v)) c)
                    = SpanId (spans w p)"
    by (simp add: SpanFromHeader_def dec allocSpan_def Let_def)
  from call out bag dec srv show ?thesis
    by blast
qed

lemma unary_client_header_eval:
  "fst (grpcUnaryInterceptor exCtx ''/svc/Get'' () () () headerProbe () exWorld)
     = Some (Err ''105445aa7843bc8bf206b12000100000/7;o=1'')"
  by (simp add: eval_defs headerProbe_def formatUint.simps Let_def)

theorem unary_client_header_witness:
  "FromContext exCtx = Some 0
   \<and> CHR ''/'' \<notin> set (traceID (spans exWorld 0))
   \<and> (\<exists>ctx1 w2 md h.
           (\<forall>invoker. fst (grpcUnaryInterceptor exCtx ''/svc/Get'' () () () invoker () exWorld)
                        = fst (invoker ctx1 ''/svc/Get'' () () () () w2))
         \<and> FromOutgoingContext ctx1 = Some md
         \<and> mds w2 md grpcMetadataKey = Some [h]
         \<and> decode h = (traceID (spans exWorld 0), SpanId (spans exWorld 0),
                        globalOptions (spans exWorld 0))
         \<and> (\<exists>c. fst (SpanFromHeader () [] h exWorld) = Some c
                \<and> ParentSpanId (spans (snd (SpanFromHeader () [] h exWorld)) c)
                    = SpanId (spans exWorld 0)))
   \<and> SpanId (spans exWorld 0) = 7
   \<and> fst (grpcUnaryInterceptor exCtx ''/svc/Get'' () () () headerProbe () exWorld)
       = Some (Err ''105445aa7843bc8bf206b12000100000/7;o=1'')"
proof -
  have h1: "FromContext exCtx = Some 0"
    by (simp add: FromContext_def exCtx_def)
  have h2: "CHR ''/'' \<notin> set (traceID (spans exWorld 0))"
    by (simp add: exWorld_def exSpan_def)
  have h3: "SpanId (spans exWorld 0) = 7"
    by (simp add: exWorld_def exSpan_def)
  from unary_client_header [OF h1 h2, of "''/svc/Get''" "()" "()" "()" "()" "()" "[]" exWorld]
    h1 h2 h3 unary_client_header_eval
  show ?thesis by blast
qed

subsection \<open>Client: the caller's metadata is copied\<close>

text \<open>
  Claim C4. A unary or streaming client call with an ambient span and an outgoing
  metadata map at address \<open>a\<close> (allocated before the call): the invoker, and the
  streamer, is called with a context whose outgoing metadata is another map \<open>md\<close>,
  which holds the caller's entries with the trace header set, while the map at \<open>a\<close>
  is as it was; and when the invoker, or the streamer, does not write the caller's map
  either, the map at \<open>a\<close> is the same after the call as before.
\<close>

theorem outgoing_metadata_copied:
  fixes streamer :: "Context \<Rightarrow> 'desc \<Rightarrow> 'cc \<Rightarrow> string \<Rightarrow> 'op \<Rightarrow> world
                       \<Rightarrow> (error + 'm ClientStream) \<times> world"
  assumes amb: "FromContext ctx = Some p"
    and out: "FromOutgoingContext ctx = Some a"
    and alloc: "a < nextMD w"
  shows "(\<exists>ctx1 w2 md h.
            (\<forall>invoker. fst (grpcUnaryInterceptor ctx meth req reply cc invoker opts w)
                         = fst (invoker ctx1 meth req reply cc opts w2))
          \<and> FromOutgoingContext ctx1 = Some md \<and> md \<noteq> a
          \<and> mds w2 md = (mds w a)(grpcMetadataKey \<mapsto> [h]) \<and> mds w2 a = mds w a)
       \<and> ((\<forall>c m rq rp k op v. mds (snd (invoker c m rq rp k op v)) a = mds v a) \<longrightarrow>
            mds (snd (grpcUnaryInterceptor ctx meth req reply cc invoker opts w)) a = mds w a)
       \<and> (\<exists>ctx1 w2 md h.
            (\<forall>streamer :: Context \<Rightarrow> 'desc \<Rightarrow> 'cc \<Rightarrow> string \<Rightarrow> 'op \<Rightarrow> world
                                   \<Rightarrow> (error + 'm ClientStream) \<times> world.
                case streamer ctx1 desc cc meth opts w2 of
                  (Inl e, w3) \<Rightarrow>
                    fst (grpcStreamClientInterceptor ctx desc cc meth streamer opts w)
                      = (None, Some e)
                | (Inr cs, w3) \<Rightarrow>
                    (\<exists>sp. fst (grpcStreamClientInterceptor ctx desc cc meth streamer opts w)
                             = (Some \<lparr>csw_stream = cs, csw_span = sp\<rparr>, None)))
          \<and> FromOutgoingContext ctx1 = Some md \<and> md \<noteq> a
          \<and> mds w2 md = (mds w a)(grpcMetadataKey \<mapsto> [h]) \<and> mds w2 a = mds w a)
       \<and> ((\<forall>c d k m op v. mds (snd (streamer c d k m op v)) a = mds v a) \<longrightarrow>
            mds (snd (grpcStreamClientInterceptor ctx desc cc meth streamer opts w)) a
              = mds w a)"
proof -
  let ?c = "nextSpan w"
  let ?w1 = "snd (NewChild (Some p) meth w)"
  let ?X = "injectHeader (Some ?c) ctx ?w1"
  let ?h = "spanHeader (traceID (spans ?w1 ?c)) (ParentSpanId (spans ?w1 ?c))
              (globalOptions (spans ?w1 ?c))"
  have span: "fst (NewChild (FromContext ctx) meth w) = Some ?c"
    by (simp add: amb NewChild_Some)
  have alloc1: "a < nextMD ?w1"
    using alloc by (simp add: nextMD_NewChild)
  have nm: "nextMD ?w1 = nextMD w"
    by (rule nextMD_NewChild)
  have m1: "mds ?w1 = mds w"
    by (rule mds_NewChild)
  have o: "FromOutgoingContext (fst ?X) = Some (nextMD w)"
    using injectHeader_copy(1) [OF out alloc1, of ?c] nm by simp
  have ne: "nextMD w \<noteq> a"
    using alloc by simp
  have new: "mds (snd ?X) (nextMD w) = (mds w a)(grpcMetadataKey \<mapsto> [?h])"
    using injectHeader_copy(3) [OF out alloc1, of ?c] nm m1 by simp
  have old: "mds (snd ?X) a = mds w a"
    using injectHeader_copy(4) [OF out alloc1, of ?c] m1 by simp
  have ucall: "\<forall>invoker. fst (grpcUnaryInterceptor ctx meth req reply cc invoker opts w)
                         = fst (invoker (fst ?X) meth req reply cc opts (snd ?X))"
    by (simp add: grpcUnaryInterceptor_unfold amb NewChild_Some Let_def)
  have span': "fst (NewChild (Some p) meth w) = Some ?c"
    by (simp add: NewChild_Some)
  have scall: "\<forall>streamer :: Context \<Rightarrow> 'desc \<Rightarrow> 'cc \<Rightarrow> string \<Rightarrow> 'op \<Rightarrow> world
                                   \<Rightarrow> (error + 'm ClientStream) \<times> world.
                case streamer (fst ?X) desc cc meth opts (snd ?X) of
                  (Inl e, w3) \<Rightarrow>
                    fst (grpcStreamClientInterceptor ctx desc cc meth streamer opts w)
                      = (None, Some e)
                | (Inr cs, w3) \<Rightarrow>
                    (\<exists>sp. fst (grpcStreamClientInterceptor ctx desc cc meth streamer opts w)
                             = (Some \<lparr>csw_stream = cs, csw_span = sp\<rparr>, None))"
  proof
    fix streamer :: "Context \<Rightarrow> 'desc \<Rightarrow> 'cc \<Rightarrow> string \<Rightarrow> 'op \<Rightarrow> world
                       \<Rightarrow> (error + 'm ClientStream) \<times> world"
    show "case streamer (fst ?X) desc cc meth opts (snd ?X) of
                  (Inl e, w3) \<Rightarrow>
                    fst (grpcStreamClientInterceptor ctx desc cc meth streamer opts w)
                      = (None, Some e)
                | (Inr cs, w3) \<Rightarrow>
                    (\<exists>sp. fst (grpcStreamClientInterceptor ctx desc cc meth streamer opts w)
                             = (Some \<lparr>csw_stream = cs, csw_span = sp\<rparr>, None))"
    proof (cases "streamer (fst ?X) desc cc meth opts (snd ?X)")
      case (Pair r w3)
      show ?thesis
      proof (cases r)
        case (Inl e)
        with Pair have "fst (streamer (fst ?X) desc cc meth opts (snd ?X)) = Inl e"
          by simp
        then have "fst (grpcStreamClientInterceptor ctx desc cc meth streamer opts w)
                     = (None, Some e)"
          by (simp add: grpcStreamClientInterceptor_unfold amb span' Let_def)
        with Pair Inl show ?thesis by simp
      next
        case (Inr cs)
        with Pair have "fst (streamer (fst ?X) desc cc meth opts (snd ?X)) = Inr cs"
          by simp
        then have "fst (grpcStreamClientInterceptor ctx desc cc meth streamer opts w)
                     = (Some \<lparr>csw_stream = cs, csw_span = Some ?c\<rparr>, None)"
          by (simp add: grpcStreamClientInterceptor_unfold amb span' Let_def)
        with Pair Inr show ?thesis by simp
      qed
    qed
  qed
  have ufin: "mds (snd (grpcUnaryInterceptor ctx meth req reply cc invoker opts w)) a = mds w a"
    if fr: "\<forall>c m rq rp k op v. mds (snd (invoker c m rq rp k op v)) a = mds v a"
  proof -
    have "mds (snd (grpcUnaryInterceptor ctx meth req reply cc invoker opts w)) a
            = mds (snd (invoker (fst ?X) meth req reply cc opts (snd ?X))) a"
      by (simp add: grpcUnaryInterceptor_unfold amb NewChild_Some Let_def mds_Finish
            mds_SetLabel split: option.split)
    also have "\<dots> = mds (snd ?X) a"
      using fr by blast
    finally show ?thesis
      using old by simp
  qed
  have sfin: "mds (snd (grpcStreamClientInterceptor ctx desc cc meth streamer opts w)) a
                = mds w a"
    if fr: "\<forall>c d k m op v. mds (snd (streamer c d k m op v)) a = mds v a"
  proof -
    have "mds (snd (grpcStreamClientInterceptor ctx desc cc meth streamer opts w)) a
            = mds (snd (streamer (fst ?X) desc cc meth opts (snd ?X))) a"
      by (simp add: grpcStreamClientInterceptor_unfold amb NewChild_Some Let_def mds_Finish
            split: sum.split)
    also have "\<dots> = mds (snd ?X) a"
      using fr by blast
    finally show ?thesis
      using old by simp
  qed
  have part1: "\<exists>ctx1 w2 md h.
            (\<forall>invoker. fst (grpcUnaryInterceptor ctx meth req reply cc invoker opts w)
                         = fst (invoker ctx1 meth req reply cc opts w2))
          \<and> FromOutgoingContext ctx1 = Some md \<and> md \<noteq> a
          \<and> mds w2 md = (mds w a)(grpcMetadataKey \<mapsto> [h]) \<and> mds w2 a = mds w a"
    using ucall o ne new old by blast
  have part3: "\<exists>ctx1 w2 md h.
            (\<forall>streamer :: Context \<Rightarrow> 'desc \<Rightarrow> 'cc \<Rightarrow> string \<Rightarrow> 'op \<Rightarrow> world
                                   \<Rightarrow> (error + 'm ClientStream) \<times> world.
                case streamer ctx1 desc cc meth opts w2 of
                  (Inl e, w3) \<Rightarrow>
                    fst (grpcStreamClientInterceptor ctx desc cc meth streamer opts w)
                      = (None, Some e)
                | (Inr cs, w3) \<Rightarrow>
                    (\<exists>sp. fst (grpcStreamClientInterceptor ctx desc cc meth streamer opts w)
                             = (Some \<lparr>csw_stream = cs, csw_span = sp\<rparr>, None)))
          \<and> FromOutgoingContext ctx1 = Some md \<and> md \<noteq> a
          \<and> mds w2 md = (mds w a)(grpcMetadataKey \<mapsto> [h]) \<and> mds w2 a = mds w a"
    using scall o ne new old by blast
  from part1 ufin part3 sfin show ?thesis
    by (intro conjI impI) assumption+
qed

lemma outgoing_metadata_copied_eval:
  "mds exWorld 0 = [''user-agent'' \<mapsto> [''demo'']]
   \<and> mds (snd (grpcUnaryInterceptor exCtx ''/svc/Get'' () () () okInvoker () exWorld)) 2
       = [''user-agent'' \<mapsto> [''demo''],
          grpcMetadataKey \<mapsto> [''105445aa7843bc8bf206b12000100000/7;o=1'']]"
  by (simp add: eval_defs okInvoker_def formatUint.simps Let_def)

theorem outgoing_metadata_copied_witness:
  "FromContext exCtx = Some 0 \<and> FromOutgoingContext exCtx = Some 0 \<and> 0 < nextMD exWorld
   \<and> mds (snd (grpcUnaryInterceptor exCtx ''/svc/Get'' () () () okInvoker () exWorld)) 0
       = [''user-agent'' \<mapsto> [''demo'']]
   \<and> mds (snd (grpcStreamClientInterceptor exCtx () () ''/svc/Get'' okStreamer () exWorld)) 0
       = [''user-agent'' \<mapsto> [''demo'']]
   \<and> mds (snd (grpcUnaryInterceptor exCtx ''/svc/Get'' () () () okInvoker () exWorld)) 2
       = [''user-agent'' \<mapsto> [''demo''],
          grpcMetadataKey \<mapsto> [''105445aa7843bc8bf206b12000100000/7;o=1'']]"
proof -
  have h1: "FromContext exCtx = Some 0"
    by (simp add: FromContext_def exCtx_def)
  have h2: "FromOutgoingContext exCtx = Some 0"
    by (simp add: FromOutgoingContext_def exCtx_def)
  have h3: "0 < nextMD exWorld"
    by (simp add: exWorld_def)
  have f1: "\<forall>c m rq rp k op v. mds (snd (okInvoker c m rq rp k op v)) 0 = mds v 0"
    by (simp add: okInvoker_def)
  have f2: "\<forall>c d k m op v. mds (snd (okStreamer c d k m op v)) 0 = mds v 0"
    by (simp add: okStreamer_def)
  note T = outgoing_metadata_copied [OF h1 h2 h3, where invoker = okInvoker
      and streamer = okStreamer and meth = "''/svc/Get''" and req = "()" and reply = "()"
      and cc = "()" and opts = "()" and desc = "()"]
  from T f1 have u: "mds (snd (grpcUnaryInterceptor exCtx ''/svc/Get'' () () () okInvoker ()
                                 exWorld)) 0 = mds exWorld 0"
    by blast
  from T f2 have s: "mds (snd (grpcStreamClientInterceptor exCtx () () ''/svc/Get'' okStreamer ()
                                 exWorld)) 0 = mds exWorld 0"
    by blast
  from h1 h2 h3 u s outgoing_metadata_copied_eval show ?thesis
    by simp
qed

subsection \<open>Streaming client: establishment failure\<close>

text \<open>
  Claim C6. A streaming client call whose streamer returns an error \<open>e\<close>: the
  interceptor returns the nil stream and \<open>e\<close> itself, and the state it returns is the
  streamer's with the derived child span finished; with an ambient span the child span
  exists and is finished on return.
\<close>

theorem stream_client_establish_failure:
  "\<exists>ctx1 w2. \<forall>streamer e w3.
      streamer ctx1 desc cc method opts w2 = (Inl e, w3) \<longrightarrow>
        grpcStreamClientInterceptor ctx desc cc method streamer opts w
          = ((None, Some e), Finish (fst (NewChild (FromContext ctx) method w)) w3)
        \<and> (\<forall>c. fst (NewChild (FromContext ctx) method w) = Some c \<longrightarrow>
              finished (spans (snd (grpcStreamClientInterceptor ctx desc cc method streamer
                                      opts w)) c))"
proof -
  let ?span = "fst (NewChild (FromContext ctx) method w)"
  let ?X = "injectHeader ?span ctx (snd (NewChild (FromContext ctx) method w))"
  have "grpcStreamClientInterceptor ctx desc cc method streamer opts w
          = ((None, Some e), Finish ?span w3)
        \<and> (\<forall>c. ?span = Some c \<longrightarrow>
              finished (spans (snd (grpcStreamClientInterceptor ctx desc cc method streamer
                                      opts w)) c))"
    if call: "streamer (fst ?X) desc cc method opts (snd ?X) = (Inl e, w3)" for streamer e w3
  proof -
    have res: "grpcStreamClientInterceptor ctx desc cc method streamer opts w
                 = ((None, Some e), Finish ?span w3)"
      by (simp add: grpcStreamClientInterceptor_unfold Let_def call)
    show ?thesis
      unfolding res by (simp add: finished_Finish)
  qed
  then show ?thesis
    by blast
qed

theorem stream_client_establish_failure_witness:
  "fst (grpcStreamClientInterceptor exCtx () () ''/svc/Watch'' failStreamer () exWorld)
     = (None, Some (Err ''unavailable''))
   \<and> fst (NewChild (FromContext exCtx) ''/svc/Watch'' exWorld) = Some 1
   \<and> finished (spans (snd (grpcStreamClientInterceptor exCtx () () ''/svc/Watch'' failStreamer
                              () exWorld)) 1)"
proof -
  have c: "fst (NewChild (FromContext exCtx) ''/svc/Watch'' exWorld) = Some 1"
    by (simp add: NewChild_Some FromContext_def exCtx_def exWorld_def)
  obtain ctx1 w2 where
    T: "\<forall>(streamer :: Context \<Rightarrow> unit \<Rightarrow> unit \<Rightarrow> string \<Rightarrow> unit \<Rightarrow> world
                          \<Rightarrow> (error + unit ClientStream) \<times> world) e w3.
          streamer ctx1 () () ''/svc/Watch'' () w2 = (Inl e, w3) \<longrightarrow>
            grpcStreamClientInterceptor exCtx () () ''/svc/Watch'' streamer () exWorld
              = ((None, Some e), Finish (fst (NewChild (FromContext exCtx) ''/svc/Watch'' exWorld)) w3)
            \<and> (\<forall>c. fst (NewChild (FromContext exCtx) ''/svc/Watch'' exWorld) = Some c \<longrightarrow>
                  finished (spans (snd (grpcStreamClientInterceptor exCtx () () ''/svc/Watch''
                                          streamer () exWorld)) c))"
    using stream_client_establish_failure [of "()" "()" "''/svc/Watch''" "()" exCtx exWorld]
    by blast
  have f: "failStreamer ctx1 () () ''/svc/Watch'' () w2 = (Inl (Err ''unavailable''), w2)"
    by (simp add: failStreamer_def)
  note r = T [THEN spec, of failStreamer, THEN spec, of "Err ''unavailable''", THEN spec,
      of w2, THEN mp, OF f]
  from r have r1: "fst (grpcStreamClientInterceptor exCtx () () ''/svc/Watch'' failStreamer () exWorld)
                     = (None, Some (Err ''unavailable''))"
    by simp
  from r c have r2: "finished (spans (snd (grpcStreamClientInterceptor exCtx () () ''/svc/Watch''
                                          failStreamer () exWorld)) 1)"
    by blast
  from r1 c r2 show ?thesis
    by blast
qed

subsection \<open>Unary client without an ambient span\<close>

text \<open>
  Claim C7. A unary client call whose context carries no span: the interceptor returns
  exactly what the invoker returns when called with the caller's context, unchanged,
  in the caller's state. So the call is made, no header is injected, no error is added
  and nothing else happens.
\<close>

theorem unary_client_no_span:
  assumes "FromContext ctx = None"
  shows "grpcUnaryInterceptor ctx method req reply cc invoker opts w
           = invoker ctx method req reply cc opts w"
proof (cases "invoker ctx method req reply cc opts w")
  case (Pair err w3)
  with assms show ?thesis
    by (simp add: grpcUnaryInterceptor_unfold NewChild_None injectHeader_None Finish_None
          SetLabel_None Let_def split: option.split)
qed

theorem unary_client_no_span_witness:
  "FromContext plainCtx = None
   \<and> grpcUnaryInterceptor plainCtx ''/svc/Get'' () () () headerProbe () exWorld
       = (None, exWorld)"
proof -
  have h: "FromContext plainCtx = None"
    by (simp add: FromContext_def plainCtx_def)
  have e: "headerProbe plainCtx ''/svc/Get'' () () () () exWorld = (None, exWorld)"
    by (simp add: headerProbe_def MD_lookup_def FromOutgoingContext_def plainCtx_def)
  from unary_client_no_span [OF h, of "''/svc/Get''" "()" "()" "()" headerProbe "()" exWorld] h e
  show ?thesis by simp
qed

subsection \<open>Unary client: the error label\<close>

text \<open>
  Claim C8. A unary client call with an ambient span \<open>S\<close>: the invoker is called in a
  state in which the child span \<open>c\<close> (named after the method, parent-span-id the id of
  \<open>S\<close>) exists; the interceptor returns the invoker's error unchanged; when the error
  is not nil the labels of \<open>c\<close> on return are those the invoker left with \<^verbatim>\<open>error\<close>
  set to the error's message, and when it is nil they are those the invoker left.
\<close>

theorem unary_client_error_label:
  assumes amb: "FromContext ctx = Some p"
  shows "\<exists>c ctx1 w2.
           spanName (spans w2 c) = method \<and> ParentSpanId (spans w2 c) = SpanId (spans w p)
         \<and> (\<forall>invoker.
               (let (err, w3) = invoker ctx1 method req reply cc opts w2;
                    (err', w') = grpcUnaryInterceptor ctx method req reply cc invoker opts w
                in err' = err
                   \<and> labels (spans w' c)
                       = (case err of
                            None \<Rightarrow> labels (spans w3 c)
                          | Some e \<Rightarrow> (labels (spans w3 c))(''error'' \<mapsto> message e))))"
proof -
  let ?c = "nextSpan w"
  let ?w1 = "snd (NewChild (Some p) method w)"
  let ?X = "injectHeader (Some ?c) ctx ?w1"
  have child: "spanName (spans (snd ?X) ?c) = method
               \<and> ParentSpanId (spans (snd ?X) ?c) = SpanId (spans w p)"
    by (simp add: spans_injectHeader NewChild_Some)
  have post: "let (err, w3) = invoker (fst ?X) method req reply cc opts (snd ?X);
                  (err', w') = grpcUnaryInterceptor ctx method req reply cc invoker opts w
              in err' = err
                 \<and> labels (spans w' ?c)
                     = (case err of
                          None \<Rightarrow> labels (spans w3 ?c)
                        | Some e \<Rightarrow> (labels (spans w3 ?c))(''error'' \<mapsto> message e))"
    for invoker
    by (cases "invoker (fst ?X) method req reply cc opts (snd ?X)")
       (simp add: grpcUnaryInterceptor_unfold amb NewChild_Some Let_def labels_Finish
          labels_SetLabel split: option.split)
  from child post show ?thesis
    by blast
qed

lemma unary_client_error_label_eval:
  "fst (grpcUnaryInterceptor exCtx ''/svc/Get'' () () () failInvoker () exWorld)
     = Some (Err ''unavailable'')
   \<and> labels (spans (snd (grpcUnaryInterceptor exCtx ''/svc/Get'' () () () failInvoker ()
                            exWorld)) 1) ''error'' = Some ''unavailable''
   \<and> fst (grpcUnaryInterceptor exCtx ''/svc/Get'' () () () okInvoker () exWorld) = None
   \<and> labels (spans (snd (grpcUnaryInterceptor exCtx ''/svc/Get'' () () () okInvoker ()
                            exWorld)) 1) ''error'' = None"
  by (simp add: eval_defs failInvoker_def okInvoker_def Let_def)

theorem unary_client_error_label_witness:
  "FromContext exCtx = Some 0
   \<and> (\<exists>c ctx1 w2.
           spanName (spans w2 c) = ''/svc/Get''
         \<and> ParentSpanId (spans w2 c) = SpanId (spans exWorld 0)
         \<and> (\<forall>invoker.
               (let (err, w3) = invoker ctx1 ''/svc/Get'' () () () () w2;
                    (err', w') = grpcUnaryInterceptor exCtx ''/svc/Get'' () () () invoker ()
                                   exWorld
                in err' = err
                   \<and> labels (spans w' c)
                       = (case err of
                            None \<Rightarrow> labels (spans w3 c)
                          | Some e \<Rightarrow> (labels (spans w3 c))(''error'' \<mapsto> message e)))))
   \<and> fst (grpcUnaryInterceptor exCtx ''/svc/Get'' () () () failInvoker () exWorld)
       = Some (Err ''unavailable'')
   \<and> labels (spans (snd (grpcUnaryInterceptor exCtx ''/svc/Get'' () () () failInvoker ()
                            exWorld)) 1) ''error'' = Some ''unavailable''
   \<and> fst (grpcUnaryInterceptor exCtx ''/svc/Get'' () () () okInvoker () exWorld) = None
   \<and> labels (spans (snd (grpcUnaryInterceptor exCtx ''/svc/Get'' () () () okInvoker ()
                            exWorld)) 1) ''error'' = None"
proof -
  have h: "FromContext exCtx = Some 0"
    by (simp add: FromContext_def exCtx_def)
  from unary_client_error_label [OF h, of "''/svc/Get''" exWorld "()" "()" "()" "()"]
    h unary_client_error_label_eval
  show ?thesis by blast
qed

subsection \<open>Unary server without a trace header\<close>

text \<open>
  Claim C9. A unary server call whose incoming metadata has no
  \<^verbatim>\<open>x-cloud-trace-context\<close> key: the interceptor returns exactly what the handler returns
  when called with the incoming context in the incoming state. The handler's context
  is the original one, no span is created or finished, response and error are the
  handler's.
\<close>

theorem unary_server_no_header:
  assumes "MD_lookup (FromIncomingContext ctx) grpcMetadataKey w = None"
  shows "GRPCServerInterceptor tc ctx req info handler w = handler ctx req w"
  using assms by (simp add: GRPCServerInterceptor_def Let_def)

theorem unary_server_no_header_witness:
  "MD_lookup (FromIncomingContext plainCtx) grpcMetadataKey exWorld = None
   \<and> GRPCServerInterceptor () plainCtx () () spanProbe exWorld = ((''no span'', None), exWorld)"
proof -
  have h: "MD_lookup (FromIncomingContext plainCtx) grpcMetadataKey exWorld = None"
    by (simp add: MD_lookup_def FromIncomingContext_def plainCtx_def)
  have e: "spanProbe plainCtx () exWorld = ((''no span'', None), exWorld)"
    by (simp add: spanProbe_def FromContext_def plainCtx_def)
  from unary_server_no_header [OF h, of "()" "()" "()" spanProbe] h e
  show ?thesis by simp
qed

subsection \<open>Server interceptors with a trace header\<close>

lemma SpanFromHeader_eq:
  "SpanFromHeader tc name header w =
     (Some (nextSpan w),
      w\<lparr>spans := (spans w)(nextSpan w :=
            \<lparr>spanName = name, traceID = fst (decode header),
             globalOptions = snd (snd (decode header)),
             SpanId = spanIDs w (nextSpan w), ParentSpanId = fst (snd (decode header)),
             labels = Map.empty, finished = False\<rparr>),
         nextSpan := Suc (nextSpan w)\<rparr>)"
  by (simp add: SpanFromHeader_def allocSpan_def split_def Let_def)

lemma SpanFromHeader_fields:
  "\<exists>c w1. SpanFromHeader tc name header w = (Some c, w1)
          \<and> (traceID (spans w1 c), ParentSpanId (spans w1 c), globalOptions (spans w1 c))
              = decode header
          \<and> \<not> finished (spans w1 c)"
  by (simp add: SpanFromHeader_eq)

lemma GRPCServerInterceptor_present:
  assumes "MD_lookup (FromIncomingContext ctx) grpcMetadataKey w = Some vs"
    and "SpanFromHeader tc [] (concat vs) w = (sp, w1)"
  shows "GRPCServerInterceptor tc ctx req info handler w
           = (fst (handler (NewContext ctx sp) req w1),
              Finish sp (snd (handler (NewContext ctx sp) req w1)))"
  using assms by (simp add: GRPCServerInterceptor_def Let_def split_def)

lemma GRPCStreamServerInterceptor_present:
  assumes "MD_lookup (FromIncomingContext (ss_Context ss)) grpcMetadataKey w = Some vs"
    and "SpanFromHeader tc [] (concat vs) (logPrintf ''intercepting server'' w) = (sp, w2)"
  shows "GRPCStreamServerInterceptor tc srv ss info handler w
           = (let w3 = logPrintf ('' intercept trace '' @ TraceID sp w2) w2;
                  ss1 = ServerStreamWrapper_iface
                          \<lparr>ssw_stream = ss, ssw_span = sp,
                           ssw_context = NewContext (ss_Context ss) sp\<rparr>;
                  R = handler srv ss1 w3
              in (fst R, Finish sp (logPrintf ('' defer finishing trace '' @ TraceID sp (snd R))
                                      (snd R))))"
  using assms
  by (simp add: GRPCStreamServerInterceptor_def Let_def split_def MD_lookup_logPrintf)

lemmas server_eval_defs =
  GRPCServerInterceptor_def GRPCStreamServerInterceptor_def SpanFromHeader_eq
  ServerStreamWrapper_iface_def ServerStreamWrapper_Context_def
  ServerStreamWrapper_SendMsg_def ServerStreamWrapper_RecvMsg_def brokenServerStream_def

lemmas decode_eval_defs = decode_def parseUint_def isDigit_def digitVal_def Let_def

lemma exCtx_incoming:
  "MD_lookup (FromIncomingContext exCtx) grpcMetadataKey exWorld = Some [''abc/4'', ''2;o=1'']"
  by (simp add: MD_lookup_def FromIncomingContext_def exCtx_def exWorld_def)

subsection \<open>Streaming server: the span is finished on return\<close>

text \<open>
  Claim C2. A server streaming call whose incoming metadata has the trace-header key:
  the handler is called with a stream \<open>ss1\<close> whose context carries the reconstructed
  span \<open>c\<close>, unfinished, in a state \<open>w3\<close>; whatever the handler does and returns, when
  the interceptor returns the span is finished, the handler's error is returned as it
  is, and the span is reported by the interceptor exactly when the handler left it
  unfinished (no error path of the wrapper had finished it).
\<close>

theorem server_stream_span_finished:
  assumes hdr: "MD_lookup (FromIncomingContext (ss_Context ss)) grpcMetadataKey w = Some vs"
  shows "\<exists>c ss1 w3.
           ss1 = ServerStreamWrapper_iface
                   \<lparr>ssw_stream = ss, ssw_span = Some c,
                    ssw_context = NewContext (ss_Context ss) (Some c)\<rparr>
         \<and> FromContext (ss_Context ss1) = Some c \<and> \<not> finished (spans w3 c)
         \<and> (\<forall>handler.
               (let (err, w4) = handler srv ss1 w3;
                    (err', w') = GRPCStreamServerInterceptor tc srv ss info handler w
                in err' = err \<and> finished (spans w' c)
                   \<and> reported w' = (if finished (spans w4 c) then reported w4
                                     else reported w4 @ [c])))"
proof -
  let ?w1 = "logPrintf ''intercepting server'' w"
  obtain c w2 where sfh: "SpanFromHeader tc [] (concat vs) ?w1 = (Some c, w2)"
    and fresh: "\<not> finished (spans w2 c)"
    using SpanFromHeader_fields [of tc "[]" "concat vs" ?w1] by blast
  let ?w3 = "logPrintf ('' intercept trace '' @ TraceID (Some c) w2) w2"
  let ?ss1 = "ServerStreamWrapper_iface
                \<lparr>ssw_stream = ss, ssw_span = Some c,
                 ssw_context = NewContext (ss_Context ss) (Some c)\<rparr>"
  have ctx: "FromContext (ss_Context ?ss1) = Some c"
    by (simp add: ServerStreamWrapper_iface_def ServerStreamWrapper_Context_def
          NewContext_def FromContext_def)
  have fresh3: "\<not> finished (spans ?w3 c)"
    using fresh by (simp add: spans_logPrintf)
  have post: "let (err, w4) = handler srv ?ss1 ?w3;
                  (err', w') = GRPCStreamServerInterceptor tc srv ss info handler w
              in err' = err \<and> finished (spans w' c)
                 \<and> reported w' = (if finished (spans w4 c) then reported w4
                                   else reported w4 @ [c])"
    for handler
    by (cases "handler srv ?ss1 ?w3")
       (simp add: GRPCStreamServerInterceptor_present [OF hdr sfh] Let_def finished_Finish
          reported_Finish spans_logPrintf reported_logPrintf)
  from ctx fresh3 post show ?thesis
    by blast
qed

lemma server_stream_span_finished_eval:
  "fst (GRPCStreamServerInterceptor () () brokenServerStream () quietHandler exWorld) = None
   \<and> finished (spans (snd (GRPCStreamServerInterceptor () () brokenServerStream ()
                              quietHandler exWorld)) 1)
   \<and> reported (snd (GRPCStreamServerInterceptor () () brokenServerStream () quietHandler
                       exWorld)) = [1]
   \<and> fst (GRPCStreamServerInterceptor () () brokenServerStream () sendingHandler exWorld)
       = Some (Err ''EOF'')
   \<and> finished (spans (snd (GRPCStreamServerInterceptor () () brokenServerStream ()
                              sendingHandler exWorld)) 1)
   \<and> reported (snd (GRPCStreamServerInterceptor () () brokenServerStream () sendingHandler
                       exWorld)) = [1]"
  by (simp add: eval_defs server_eval_defs quietHandler_def sendingHandler_def Let_def)

theorem server_stream_span_finished_witness:
  "MD_lookup (FromIncomingContext (ss_Context brokenServerStream)) grpcMetadataKey exWorld
     = Some [''abc/4'', ''2;o=1'']
   \<and> (\<exists>c ss1 w3.
           ss1 = ServerStreamWrapper_iface
                   \<lparr>ssw_stream = brokenServerStream, ssw_span = Some c,
                    ssw_context = NewContext (ss_Context brokenServerStream) (Some c)\<rparr>
         \<and> FromContext (ss_Context ss1) = Some c \<and> \<not> finished (spans w3 c)
         \<and> (\<forall>handler.
               (let (err, w4) = handler () ss1 w3;
                    (err', w') = GRPCStreamServerInterceptor () () brokenServerStream ()
                                   handler exWorld
                in err' = err \<and> finished (spans w' c)
                   \<and> reported w' = (if finished (spans w4 c) then reported w4
                                     else reported w4 @ [c]))))
   \<and> reported (snd (GRPCStreamServerInterceptor () () brokenServerStream () quietHandler
                       exWorld)) = [1]
   \<and> fst (GRPCStreamServerInterceptor () () brokenServerStream () sendingHandler exWorld)
       = Some (Err ''EOF'')
   \<and> reported (snd (GRPCStreamServerInterceptor () () brokenServerStream () sendingHandler
                       exWorld)) = [1]"
proof -
  have h: "MD_lookup (FromIncomingContext (ss_Context brokenServerStream)) grpcMetadataKey
             exWorld = Some [''abc/4'', ''2;o=1'']"
    using exCtx_incoming by (simp add: brokenServerStream_def)
  from server_stream_span_finished [OF h, of "()" "()" "()"] h
    server_stream_span_finished_eval
  show ?thesis by blast
qed

subsection \<open>Server: several header values are joined\<close>

text \<open>
  Claim C10. When the incoming metadata maps the trace-header key to more than one
  value, the unary and the streaming server interceptor reconstruct the span from the
  concatenation of all the values (\<^verbatim>\<open>strings.Join(header, "")\<close>): the span in the
  handler's context has the trace id, parent-span-id and options decoded from
  \<open>concat vs\<close>. In the example the values \<^verbatim>\<open>abc/4\<close> and \<^verbatim>\<open>2;o=1\<close> give parent-span-id 42,
  where the first value alone would give 4.
\<close>

theorem server_header_values_joined:
  "(MD_lookup (FromIncomingContext ctx) grpcMetadataKey w = Some vs \<and> 1 < length vs \<longrightarrow>
      (\<exists>c w1. SpanFromHeader tc [] (concat vs) w = (Some c, w1)
          \<and> (traceID (spans w1 c), ParentSpanId (spans w1 c), globalOptions (spans w1 c))
              = decode (concat vs)
          \<and> (\<forall>handler. fst (GRPCServerInterceptor tc ctx req info handler w)
                          = fst (handler (NewContext ctx (Some c)) req w1))))
   \<and> (MD_lookup (FromIncomingContext (ss_Context ss)) grpcMetadataKey v = Some us
        \<and> 1 < length us \<longrightarrow>
      (\<exists>c v3. (traceID (spans v3 c), ParentSpanId (spans v3 c), globalOptions (spans v3 c))
              = decode (concat us)
          \<and> (\<forall>handler. fst (GRPCStreamServerInterceptor tc srv ss sinfo handler v)
                          = fst (handler srv
                                   (ServerStreamWrapper_iface
                                      \<lparr>ssw_stream = ss, ssw_span = Some c,
                                       ssw_context = NewContext (ss_Context ss) (Some c)\<rparr>)
                                   v3))))"
proof (intro conjI impI)
  assume "MD_lookup (FromIncomingContext ctx) grpcMetadataKey w = Some vs \<and> 1 < length vs"
  then have hdr: "MD_lookup (FromIncomingContext ctx) grpcMetadataKey w = Some vs"
    by simp
  obtain c w1 where sfh: "SpanFromHeader tc [] (concat vs) w = (Some c, w1)"
    and flds: "(traceID (spans w1 c), ParentSpanId (spans w1 c), globalOptions (spans w1 c))
                 = decode (concat vs)"
    using SpanFromHeader_fields [of tc "[]" "concat vs" w] by blast
  have "\<forall>handler. fst (GRPCServerInterceptor tc ctx req info handler w)
                    = fst (handler (NewContext ctx (Some c)) req w1)"
    by (simp add: GRPCServerInterceptor_present [OF hdr sfh])
  with sfh flds
  show "\<exists>c w1. SpanFromHeader tc [] (concat vs) w = (Some c, w1)
          \<and> (traceID (spans w1 c), ParentSpanId (spans w1 c), globalOptions (spans w1 c))
              = decode (concat vs)
          \<and> (\<forall>handler. fst (GRPCServerInterceptor tc ctx req info handler w)
                          = fst (handler (NewContext ctx (Some c)) req w1))"
    by blast
next
  assume "MD_lookup (FromIncomingContext (ss_Context ss)) grpcMetadataKey v = Some us
            \<and> 1 < length us"
  then have hdr: "MD_lookup (FromIncomingContext (ss_Context ss)) grpcMetadataKey v = Some us"
    by simp
  let ?v1 = "logPrintf ''intercepting server'' v"
  obtain c v2 where sfh: "SpanFromHeader tc [] (concat us) ?v1 = (Some c, v2)"
    and flds: "(traceID (spans v2 c), ParentSpanId (spans v2 c), globalOptions (spans v2 c))
                 = decode (concat us)"
    using SpanFromHeader_fields [of tc "[]" "concat us" ?v1] by blast
  let ?v3 = "logPrintf ('' intercept trace '' @ TraceID (Some c) v2) v2"
  have flds3: "(traceID (spans ?v3 c), ParentSpanId (spans ?v3 c), globalOptions (spans ?v3 c))
                 = decode (concat us)"
    using flds by (simp add: spans_logPrintf)
  have "\<forall>handler. fst (GRPCStreamServerInterceptor tc srv ss sinfo handler v)
                    = fst (handler srv
                             (ServerStreamWrapper_iface
                                \<lparr>ssw_stream = ss, ssw_span = Some c,
                                 ssw_context = NewContext (ss_Context ss) (Some c)\<rparr>)
                             ?v3)"
    by (simp add: GRPCStreamServerInterceptor_present [OF hdr sfh] Let_def)
  with flds3
  show "\<exists>c v3. (traceID (spans v3 c), ParentSpanId (spans v3 c), globalOptions (spans v3 c))
              = decode (concat us)
          \<and> (\<forall>handler. fst (GRPCStreamServerInterceptor tc srv ss sinfo handler v)
                          = fst (handler srv
                                   (ServerStreamWrapper_iface
                                      \<lparr>ssw_stream = ss, ssw_span = Some c,
                                       ssw_context = NewContext (ss_Context ss) (Some c)\<rparr>)
                                   v3))"
    by blast
qed

lemma decode_joined_eval:
  "decode (concat [''abc/4'', ''2;o=1'']) = (''abc'', 42, 1)
   \<and> decode (hd [''abc/4'', ''2;o=1'']) = (''abc'', 4, 0)"
  by (simp add: decode_eval_defs)

lemma server_header_values_joined_eval:
  "fst (GRPCServerInterceptor () exCtx () () spanProbe exWorld) = (''42'', None)
   \<and> fst (GRPCStreamServerInterceptor () () brokenServerStream () streamSpanProbe exWorld)
       = Some (Err ''42'')"
  using decode_joined_eval
  by (simp add: eval_defs server_eval_defs spanProbe_def streamSpanProbe_def
        formatUint.simps Let_def)

theorem server_header_values_joined_witness:
  "MD_lookup (FromIncomingContext exCtx) grpcMetadataKey exWorld = Some [''abc/4'', ''2;o=1'']
   \<and> 1 < length [''abc/4'', ''2;o=1'']
   \<and> ss_Context brokenServerStream = exCtx
   \<and> (\<exists>c w1. SpanFromHeader () [] (concat [''abc/4'', ''2;o=1'']) exWorld = (Some c, w1)
          \<and> (traceID (spans w1 c), ParentSpanId (spans w1 c), globalOptions (spans w1 c))
              = decode (concat [''abc/4'', ''2;o=1''])
          \<and> (\<forall>handler :: Context \<Rightarrow> unit \<Rightarrow> world \<Rightarrow> (string \<times> error option) \<times> world.
                fst (GRPCServerInterceptor () exCtx () () handler exWorld)
                  = fst (handler (NewContext exCtx (Some c)) () w1)))
   \<and> (\<exists>c v3. (traceID (spans v3 c), ParentSpanId (spans v3 c), globalOptions (spans v3 c))
              = decode (concat [''abc/4'', ''2;o=1''])
          \<and> (\<forall>handler. fst (GRPCStreamServerInterceptor () () brokenServerStream () handler
                                exWorld)
                          = fst (handler ()
                                   (ServerStreamWrapper_iface
                                      \<lparr>ssw_stream = brokenServerStream, ssw_span = Some c,
                                       ssw_context = NewContext (ss_Context brokenServerStream)
                                                       (Some c)\<rparr>)
                                   v3)))
   \<and> decode (concat [''abc/4'', ''2;o=1'']) = (''abc'', 42, 1)
   \<and> decode (hd [''abc/4'', ''2;o=1'']) = (''abc'', 4, 0)
   \<and> fst (GRPCServerInterceptor () exCtx () () spanProbe exWorld) = (''42'', None)
   \<and> fst (GRPCStreamServerInterceptor () () brokenServerStream () streamSpanProbe exWorld)
       = Some (Err ''42'')"
proof -
  have c: "ss_Context brokenServerStream = exCtx"
    by (simp add: brokenServerStream_def)
  have h1: "MD_lookup (FromIncomingContext exCtx) grpcMetadataKey exWorld
              = Some [''abc/4'', ''2;o=1''] \<and> 1 < length [''abc/4'', ''2;o=1'']"
    using exCtx_incoming by simp
  have h2: "MD_lookup (FromIncomingContext (ss_Context brokenServerStream)) grpcMetadataKey
              exWorld = Some [''abc/4'', ''2;o=1''] \<and> 1 < length [''abc/4'', ''2;o=1'']"
    using h1 c by simp
  note T = server_header_values_joined [of exCtx exWorld "[''abc/4'', ''2;o=1'']" "()" "()" "()"
      brokenServerStream exWorld "[''abc/4'', ''2;o=1'']" "()" "()"]
  from T h1 have p1: "\<exists>c w1. SpanFromHeader () [] (concat [''abc/4'', ''2;o=1'']) exWorld = (Some c, w1)
          \<and> (traceID (spans w1 c), ParentSpanId (spans w1 c), globalOptions (spans w1 c))
              = decode (concat [''abc/4'', ''2;o=1''])
          \<and> (\<forall>handler :: Context \<Rightarrow> unit \<Rightarrow> world \<Rightarrow> (string \<times> error option) \<times> world.
                fst (GRPCServerInterceptor () exCtx () () handler exWorld)
                  = fst (handler (NewContext exCtx (Some c)) () w1))"
    by blast
  from T h2 have p2: "\<exists>c v3. (traceID (spans v3 c), ParentSpanId (spans v3 c), globalOptions (spans v3 c))
              = decode (concat [''abc/4'', ''2;o=1''])
          \<and> (\<forall>handler. fst (GRPCStreamServerInterceptor () () brokenServerStream () handler
                                exWorld)
                          = fst (handler ()
                                   (ServerStreamWrapper_iface
                                      \<lparr>ssw_stream = brokenServerStream, ssw_span = Some c,
                                       ssw_context = NewContext (ss_Context brokenServerStream)
                                                       (Some c)\<rparr>)
                                   v3))"
    by blast
  from h1 c p1 p2 decode_joined_eval server_header_values_joined_eval
  show ?thesis by (intro conjI) simp_all
qed

end
